theory Spec2Isabelle
  imports Complex_Main "HOL-Library.Sublist"
begin

section \<open>Go's path package: Clean and Join\<close>

text \<open>
  Both source files build paths with \<^verbatim>\<open>path.Join\<close> (and \<^verbatim>\<open>filepath.Join\<close>, which on
  the agent's Unix build is the same function with separator \<^verbatim>\<open>/\<close>). The standard library
  is modelled on path components: \<^verbatim>\<open>Clean\<close> collapses repeated slashes, drops \<^verbatim>\<open>.\<close>
  elements, lets an inner \<^verbatim>\<open>..\<close> remove the element before it, drops a \<^verbatim>\<open>..\<close> that would
  climb above the root, and turns an empty result into \<^verbatim>\<open>.\<close>.
\<close>

fun splitSlash :: "string \<Rightarrow> string list" where
  "splitSlash [] = [[]]"
| "splitSlash (c # cs) =
     (if c = CHR ''/'' then [] # splitSlash cs
      else (case splitSlash cs of
              [] \<Rightarrow> [[c]]
            | w # ws \<Rightarrow> (c # w) # ws))"

fun joinSlash :: "string list \<Rightarrow> string" where
  "joinSlash [] = []"
| "joinSlash [e] = e"
| "joinSlash (e # f # es) = e @ ''/'' @ joinSlash (f # es)"

text \<open>The element stack of \<^verbatim>\<open>Clean\<close>, top first; \<open>rooted\<close> is whether the path starts with a slash.\<close>

fun cleanStep :: "bool \<Rightarrow> string list \<Rightarrow> string \<Rightarrow> string list" where
  "cleanStep rooted stack elt =
     (if elt = [] \<or> elt = ''.'' then stack
      else if elt = ''..'' then
        (case stack of
           [] \<Rightarrow> (if rooted then [] else [''..''])
         | e # below \<Rightarrow> (if e = ''..'' then ''..'' # stack else below))
      else elt # stack)"

definition path_Clean :: "string \<Rightarrow> string" where
  "path_Clean p =
     (if p = [] then ''.''
      else
        (let rooted = (hd p = CHR ''/'');
             out = rev (foldl (cleanStep rooted) [] (splitSlash p))
         in if rooted then CHR ''/'' # joinSlash out
            else if out = [] then ''.'' else joinSlash out))"

text \<open>
  \<^verbatim>\<open>Join\<close>: leading empty elements are skipped; the rest is joined with slashes and cleaned;
  with no non-empty element the result is the empty string.
\<close>

definition path_Join :: "string list \<Rightarrow> string" where
  "path_Join elem =
     (case dropWhile (\<lambda>e. e = []) elem of
        [] \<Rightarrow> []
      | e # es \<Rightarrow> path_Clean (joinSlash (e # es)))"

section \<open>Go's float32\<close>

text \<open>
  \<^verbatim>\<open>VerifyInventoryDataSize\<close> computes in \<^verbatim>\<open>float32\<close>. A finite \<^verbatim>\<open>float32\<close> is modelled by
  the rational number it denotes, and \<open>float32 x\<close> is the \<^verbatim>\<open>float32\<close> nearest to \<open>x\<close>, ties
  going to the even significand (IEEE 754 binary32: 24 significant bits, exponents from
  -126 to 127, subnormal numbers below). Go rounds this way when it converts an integer or a
  constant to \<^verbatim>\<open>float32\<close> and when it divides two \<^verbatim>\<open>float32\<close> values. Infinities are not
  modelled: a length is below \<open>2^63\<close>, and Go does not compile a constant that overflows
  \<^verbatim>\<open>float32\<close>.
\<close>

definition pow2 :: "int \<Rightarrow> rat" where
  "pow2 e = (if 0 \<le> e then 2 ^ nat e else 1 / 2 ^ nat (- e))"

definition roundEven :: "rat \<Rightarrow> int" where
  "roundEven r =
     (let f = \<lfloor>r\<rfloor>; d = r - of_int f
      in if d < 1 / 2 then f
         else if 1 / 2 < d then f + 1
         else if even f then f else f + 1)"

text \<open>
  The binary exponent of a positive number, kept within \<open>-126 .. 127\<close>: halve while the
  number is at least 2, double while it is below 1. The first argument bounds the number of
  steps; the exponent's range bounds it as well, so it never runs out.
\<close>

primrec exponentAbove :: "nat \<Rightarrow> rat \<Rightarrow> int \<Rightarrow> int" where
  "exponentAbove 0 a e = e"
| "exponentAbove (Suc n) a e =
     (if 2 \<le> a \<and> e < 127 then exponentAbove n (a / 2) (e + 1) else e)"

primrec exponentBelow :: "nat \<Rightarrow> rat \<Rightarrow> int \<Rightarrow> int" where
  "exponentBelow 0 a e = e"
| "exponentBelow (Suc n) a e =
     (if a < 1 \<and> - 126 < e then exponentBelow n (a * 2) (e - 1) else e)"

definition exponent32 :: "rat \<Rightarrow> int" where
  "exponent32 a = (if 1 \<le> a then exponentAbove 127 a 0 else exponentBelow 126 a 0)"

definition float32 :: "rat \<Rightarrow> rat" where
  "float32 x =
     (if x = 0 then 0
      else (let a = \<bar>x\<bar>;
                q = pow2 (exponent32 a - 23)
            in sgn x * of_int (roundEven (a / q)) * q))"

section \<open>Inventory plugin (agent/inventory/inventory.go)\<close>

subsection \<open>Data\<close>

text \<open>
  \<^verbatim>\<open>inventory.Policy\<close> holds a Go map from gatherer name to that gatherer's configuration.
  A Go map has no order of its own: the \<^verbatim>\<open>range\<close> statement visits the entries in an order
  that the language leaves unspecified and that the runtime varies from one loop to the next.
  A policy is therefore given as the list of the map's entries in the order in which the
  \<^verbatim>\<open>range\<close> of this run visits them; \<open>map_of\<close> gives back the map.
\<close>

type_synonym 'cfg Policy = "(string \<times> 'cfg) list"

text \<open>
  A gatherer's \<^verbatim>\<open>Run\<close> returns an item or an error (here the error's text).
\<close>

type_synonym ('cfg, 'item) Gatherer = "'cfg \<Rightarrow> string + 'item"

text \<open>The three errors that \<^verbatim>\<open>VerifyAndRunGatherers\<close> builds with \<^verbatim>\<open>log.Errorf\<close>.\<close>

datatype inv_error =
    UnrecognizedGatherer string
  | GathererFailed string string
  | SizeLimitExceeded

text \<open>
  The plugin, with the collaborators it reaches through its fields: the registry of gatherers
  and the uploader's conversion. The uploader's \<^verbatim>\<open>ConvertToSsmInventoryItems\<close> returns, as
  every Go function of this shape, a slice together with an error that may be nil.
\<close>

record ('cfg, 'item, 'ssm) Plugin =
  location :: string
  registeredGatherers :: "string \<rightharpoonup> ('cfg, 'item) Gatherer"
  ConvertToSsmInventoryItems :: "'item list \<Rightarrow> 'ssm list \<times> string option"

text \<open>
  What the inventory package and the runtime supply from outside the two source files: the
  constants of the inventory model package, the text that \<^verbatim>\<open>fmt.Sprintf("%s", _)\<close> prints
  for an item and for a slice of items, the file system and the JSON decoder.
\<close>

record ('cfg, 'item) InvEnv =
  InventoryPolicyDocName :: string
  SizeLimitKBPerInventoryType :: rat
  TotalSizeLimitKB :: rat
  SprintfItem :: "'item \<Rightarrow> string"
  SprintfItems :: "'item list \<Rightarrow> string"
  Exists :: "string \<Rightarrow> bool"
  ReadAllText :: "string \<Rightarrow> string + string"
  UnmarshalPolicy :: "string \<Rightarrow> string + 'cfg Policy"

subsection \<open>VerifyInventoryDataSize\<close>

text \<open>
  \<^verbatim>\<open>itemSize\<close> and \<^verbatim>\<open>itemsSize\<close> are the byte counts of the printed item and of the
  printed slice, converted to \<^verbatim>\<open>float32\<close>. Each is divided by 1000 in \<^verbatim>\<open>float32\<close> and
  compared with its limit, a constant of the inventory model package that the comparison
  converts to \<^verbatim>\<open>float32\<close>.
\<close>

definition VerifyInventoryDataSize ::
  "('cfg, 'item) InvEnv \<Rightarrow> 'item \<Rightarrow> 'item list \<Rightarrow> bool" where
  "VerifyInventoryDataSize env item items =
     (let itemSize = float32 (of_nat (length (SprintfItem env item)));
          itemsSize = float32 (of_nat (length (SprintfItems env items)))
      in if float32 (itemSize / float32 1000) > float32 (SizeLimitKBPerInventoryType env)
            \<or> float32 (itemsSize / float32 1000) > float32 (TotalSizeLimitKB env)
         then False else True)"

subsection \<open>VerifyAndRunGatherers\<close>

text \<open>
  The function's two named results, \<open>items\<close> and \<open>err\<close>, and beside them the names of the
  gatherers whose \<^verbatim>\<open>Run\<close> was called, in call order (the source logs each one with
  "Invoking gatherer" just before the call).
\<close>

record 'item GatherResult =
  items :: "'item list"
  err :: "inv_error option"
  invoked :: "string list"

text \<open>
  The \<^verbatim>\<open>for name, _ := range policy.InventoryPolicy\<close> loop. Every \<^verbatim>\<open>break\<close> leaves the
  loop with \<open>items\<close> as it stands; the function then returns \<^verbatim>\<open>items, err\<close>.
  The configuration \<^verbatim>\<open>policy.InventoryPolicy[name]\<close> is the value the entry carries.
\<close>

fun gatherLoop ::
  "('cfg, 'item, 'ssm) Plugin \<Rightarrow> ('cfg, 'item) InvEnv \<Rightarrow> 'cfg Policy \<Rightarrow>
   'item GatherResult \<Rightarrow> 'item GatherResult" where
  "gatherLoop p env [] st = st"
| "gatherLoop p env ((name, cfg) # rest) st =
     (case registeredGatherers p name of
        None \<Rightarrow> st\<lparr>err := Some (UnrecognizedGatherer name)\<rparr>
      | Some gatherer \<Rightarrow>
          (case gatherer cfg of
             Inl cause \<Rightarrow>
               st\<lparr>err := Some (GathererFailed name cause), invoked := invoked st @ [name]\<rparr>
           | Inr item \<Rightarrow>
               (let st' = st\<lparr>items := items st @ [item], invoked := invoked st @ [name]\<rparr>
                in if \<not> VerifyInventoryDataSize env item (items st')
                   then st'\<lparr>err := Some SizeLimitExceeded\<rparr>
                   else gatherLoop p env rest st')))"

definition VerifyAndRunGatherers ::
  "('cfg, 'item, 'ssm) Plugin \<Rightarrow> ('cfg, 'item) InvEnv \<Rightarrow> 'cfg Policy \<Rightarrow> 'item GatherResult" where
  "VerifyAndRunGatherers p env policy =
     gatherLoop p env policy \<lparr>items = [], err = None, invoked = []\<rparr>"

subsection \<open>ApplyInventoryPolicy\<close>

text \<open>
  The function returns nothing; what it does is call \<^verbatim>\<open>p.uploader.SendDataToSSM\<close> or not.
  The model returns the arguments of the \<^verbatim>\<open>SendDataToSSM\<close> calls it makes, in order.
  The slice \<^verbatim>\<open>inventoryItems\<close> is assigned from the conversion's first result whether or not
  the conversion's error is nil, and is then sent.
\<close>

definition ApplyInventoryPolicy ::
  "('cfg, 'item, 'ssm) Plugin \<Rightarrow> ('cfg, 'item) InvEnv \<Rightarrow> 'ssm list list" where
  "ApplyInventoryPolicy p env =
     (let doc = path_Join [location p, InventoryPolicyDocName env]
      in if Exists env doc then
           (case ReadAllText env doc of
              Inr content \<Rightarrow>
                (case UnmarshalPolicy env content of
                   Inl e \<Rightarrow> []
                 | Inr policy \<Rightarrow>
                     (let r = VerifyAndRunGatherers p env policy
                      in case err r of
                           Some e \<Rightarrow> []
                         | None \<Rightarrow>
                             (let (inventoryItems, cerr) = ConvertToSsmInventoryItems p (items r)
                              in [inventoryItems])))
            | Inl e \<Rightarrow> [])
         else [])"

subsection \<open>Describing what the loop has collected\<close>

text \<open>
  \<open>ranBefore p entries its\<close>: the items \<open>its\<close> are, one for one and in order, what the
  registered gatherers named by \<open>entries\<close> return on the configurations given there.
\<close>

fun ranBefore :: "('cfg, 'item, 'ssm) Plugin \<Rightarrow> 'cfg Policy \<Rightarrow> 'item list \<Rightarrow> bool" where
  "ranBefore p [] its = (its = [])"
| "ranBefore p ((name, cfg) # es) its =
     (case its of
        [] \<Rightarrow> False
      | item # rest \<Rightarrow>
          (case registeredGatherers p name of
             None \<Rightarrow> False
           | Some g \<Rightarrow> g cfg = Inr item \<and> ranBefore p es rest))"

text \<open>
  \<open>stoppedBy p env entry before rest e\<close>: with the items \<open>before\<close> collected, the policy
  entry \<open>entry\<close> makes the loop leave with error \<open>e\<close> and adds the items \<open>rest\<close>. An
  unregistered or failing gatherer adds nothing; a gatherer whose item breaks a size limit
  adds that item.
\<close>

definition stoppedBy ::
  "('cfg, 'item, 'ssm) Plugin \<Rightarrow> ('cfg, 'item) InvEnv \<Rightarrow> string \<times> 'cfg \<Rightarrow>
   'item list \<Rightarrow> 'item list \<Rightarrow> inv_error \<Rightarrow> bool" where
  "stoppedBy p env entry before rest e =
     (case e of
        UnrecognizedGatherer name \<Rightarrow>
          name = fst entry \<and> registeredGatherers p name = None \<and> rest = []
      | GathererFailed name cause \<Rightarrow>
          name = fst entry \<and> rest = [] \<and>
          (case registeredGatherers p name of
             None \<Rightarrow> False
           | Some g \<Rightarrow> g (snd entry) = Inl cause)
      | SizeLimitExceeded \<Rightarrow>
          (case registeredGatherers p (fst entry) of
             None \<Rightarrow> False
           | Some g \<Rightarrow>
               (case g (snd entry) of
                  Inl cause \<Rightarrow> False
                | Inr item \<Rightarrow>
                    rest = [item] \<and> \<not> VerifyInventoryDataSize env item (before @ [item]))))"

subsection \<open>A concrete plugin\<close>

text \<open>
  Two registered gatherers, \<open>A\<close> returning an item of 500 bytes and \<open>B\<close> one of 400 bytes;
  an item prints as itself and a slice as the concatenation of its items. \<open>tightEnv\<close> has an
  aggregate limit of 0.8 KB, \<open>roomyEnv\<close> one of 1024 KB; both have a per-item limit of 10 KB.
  \<open>partialConvert\<close> is an uploader whose conversion gives up after the first item and
  returns what it has with its error. In \<open>unreadableEnv\<close> the policy file exists and cannot
  be read. \<open>unregisteredPolicy\<close> names \<open>A\<close> and a gatherer \<open>Z\<close> that is not registered.
\<close>

definition itemA :: string where
  "itemA = replicate 500 (CHR ''a'')"

definition itemB :: string where
  "itemB = replicate 400 (CHR ''b'')"

definition demoPlugin :: "(string, string, string) Plugin" where
  "demoPlugin =
     \<lparr>location = ''/var/lib/amazon/ssm'',
      registeredGatherers = [''A'' \<mapsto> (\<lambda>cfg. Inr itemA), ''B'' \<mapsto> (\<lambda>cfg. Inr itemB)],
      ConvertToSsmInventoryItems = (\<lambda>its. (its, None))\<rparr>"


definition demoPolicy :: "string Policy" where
  "demoPolicy = [(''A'', ''{}''), (''B'', ''{}'')]"

definition unregisteredPolicy :: "string Policy" where
  "unregisteredPolicy = [(''A'', ''{}''), (''Z'', ''{}'')]"

definition roomyEnv :: "(string, string) InvEnv" where
  "roomyEnv =
     \<lparr>InventoryPolicyDocName = ''policy.json'',
      SizeLimitKBPerInventoryType = 10,
      TotalSizeLimitKB = 1024,
      SprintfItem = (\<lambda>i. i),
      SprintfItems = concat,
      Exists = (\<lambda>f. True),
      ReadAllText = (\<lambda>f. Inr ''policy''),
      UnmarshalPolicy = (\<lambda>c. Inr demoPolicy)\<rparr>"

definition tightEnv :: "(string, string) InvEnv" where
  "tightEnv = roomyEnv\<lparr>TotalSizeLimitKB := 4 / 5\<rparr>"


section \<open>Association document parser (agent/association/parser/parser.go)\<close>

subsection \<open>Data\<close>

text \<open>
  A value of Go's \<^verbatim>\<open>interface{}\<close> that was decoded from JSON; \<open>JNull\<close> is the nil
  interface.
\<close>

datatype json =
    JNull
  | JBool bool
  | JNumber int
  | JString string
  | JArray "json list"
  | JObject "(string \<times> json) list"

text \<open>
  How a call ends when it does not return a result: with a run-time panic (a nil pointer is
  dereferenced, a slice is indexed out of range) or with a returned error.
\<close>

datatype failure =
    NilPointerDereference
  | IndexOutOfRange
  | Err string

type_synonym Time = nat

text \<open>
  The raw association message, \<^verbatim>\<open>model.InstanceAssociation\<close>. A Go pointer is an option
  (\<open>None\<close> is nil). The map \<^verbatim>\<open>Association.Parameters\<close>, which \<^verbatim>\<open>parseParameters\<close>
  ranges over, is the list of its entries in the order of that range.
\<close>

record S3OutputLocation =
  OutputS3KeyPrefix_loc :: "string option"
  OutputS3BucketName_loc :: "string option"

record InstanceAssociationOutputLocation =
  S3Location :: "S3OutputLocation option"

record InstanceAssociationSummary =
  Name_assoc :: "string option"
  AssociationId :: "string option"
  InstanceId :: "string option"
  OutputLocation :: "InstanceAssociationOutputLocation option"
  Parameters_assoc :: "(string \<times> string option list) list"

record InstanceAssociation =
  Association :: InstanceAssociationSummary
  Document :: "string option"
  DocumentID_raw :: string
  CreateDate :: Time
  RunOnce_raw :: bool

text \<open>
  The decoded document, \<^verbatim>\<open>contracts.DocumentContent\<close>. The two constants of the
  \<^verbatim>\<open>switch\<close> in \<^verbatim>\<open>parseParameters\<close> are two constructors; every other declared type is
  \<open>ParamTypeOther\<close>. The parameter definitions are a map to pointers
  (\<^verbatim>\<open>map[string]*contracts.Parameter\<close>), here the list of its entries, looked up with
  \<open>map_of\<close>, in the order in which \<^verbatim>\<open>ParseDocumentWithParams\<close> ranges over it. A nil map
  and an empty map are both the empty list: the source only ranges over them, looks keys
  up and takes \<^verbatim>\<open>len\<close>.
\<close>

datatype ParamType = ParamTypeString | ParamTypeStringList | ParamTypeOther string

record Parameter =
  ParamType :: ParamType
  DefaultVal :: json

record PluginConfig =
  Settings_plugin :: json
  Properties_plugin :: json

record InstancePluginConfig =
  Action :: string
  Name_step :: string
  Settings_step :: json
  Inputs :: json

record DocumentContent =
  SchemaVersion_doc :: string
  Parameters_doc :: "(string \<times> Parameter option) list"
  RuntimeConfig :: "(string \<times> PluginConfig) list"
  MainSteps :: "InstancePluginConfig list"

text \<open>
  A value of the binding table \<^verbatim>\<open>map[string]interface{}\<close>: the \<^verbatim>\<open>*string\<close> stored for a
  scalar parameter, the \<^verbatim>\<open>[]*string\<close> stored for a list parameter, or a declared default.
\<close>

datatype ParamValue =
    StringPtr "string option"
  | StringPtrList "string option list"
  | Default json

record SendCommandPayload =
  DocumentContent :: DocumentContent
  DocumentName_payload :: string
  CommandID :: string
  OutputS3KeyPrefix_payload :: string
  OutputS3BucketName_payload :: string
  Parameters_payload :: "string \<rightharpoonup> ParamValue"

text \<open>The compiled state, \<^verbatim>\<open>stateModel.DocumentState\<close>, and its parts.\<close>

record Configuration =
  Settings :: json
  Properties :: json
  OutputS3BucketName :: string
  OutputS3KeyPrefix :: string
  OrchestrationDirectory :: string
  MessageId :: string
  BookKeepingFileName :: string

record PluginState =
  Configuration :: Configuration
  HasExecuted :: bool
  Id_plugin :: string
  Name_plugin :: string

datatype ResultStatus = ResultStatusInProgress | ResultStatusOther string

datatype DocumentType = Association_type | OtherDocumentType

record DocumentInfo =
  AssociationID :: string
  InstanceID :: string
  MessageID :: string
  RunID :: string
  DocumentID :: string
  CreatedDate :: string
  DocumentName :: string
  IsCommand :: bool
  DocumentStatus :: ResultStatus
  RunOnce :: bool
  DocumentTraceOutput :: string

record DocumentState =
  DocumentInformation :: DocumentInfo
  DocumentType :: DocumentType
  SchemaVersion :: string
  PluginsInformation :: "string \<rightharpoonup> PluginState"
  InstancePluginsInformation :: "PluginState list"

text \<open>
  What the parser takes from other packages: the JSON encoder and decoder, the parameter
  validation and substitution of the parameters and message-parser packages, the clock and
  its two formatters, and the configured path segments.
  \<^verbatim>\<open>ReplacePluginParameters\<close> rewrites the payload it is given and may return an error.
\<close>

record ParserEnv =
  MarshalAssociation :: "InstanceAssociation \<Rightarrow> string + string"
  UnmarshalDocument :: "string \<Rightarrow> string + DocumentContent"
  MarshalParameters :: "(string \<rightharpoonup> ParamValue) \<Rightarrow> string + string"
  ValidParameters :: "(string \<rightharpoonup> ParamValue) \<Rightarrow> (string \<rightharpoonup> ParamValue)"
  ReplacePluginParameters ::
    "SendCommandPayload \<Rightarrow> (string \<rightharpoonup> ParamValue) \<Rightarrow> string + SendCommandPayload"
  Now :: Time
  ToIsoDashUTC :: "Time \<Rightarrow> string"
  ToIso8601UTC :: "Time \<Rightarrow> string"
  DefaultDataStorePath :: string
  DefaultDocumentRootDirName :: string
  OrchestrationRootDir :: string

text \<open>
  Modelled from the spec: \<^verbatim>\<open>fileutil.BuildS3Path\<close> and \<^verbatim>\<open>fileutil.BuildPath\<close> are not
  among the source files. The specification gives the per-plugin output key prefix and
  orchestration directory as the document-level value joined with the plugin's name as the
  final path segment.
\<close>

definition BuildS3Path :: "string \<Rightarrow> string \<Rightarrow> string" where
  "BuildS3Path rootPath element = path_Join [rootPath, element]"

definition BuildPath :: "string \<Rightarrow> string \<Rightarrow> string" where
  "BuildPath rootPath element = path_Join [rootPath, element]"

subsection \<open>parseParameters\<close>

text \<open>
  The loop of \<^verbatim>\<open>parseParameters\<close> over the supplied parameters, with the result map built
  so far. \<^verbatim>\<open>definition.ParamType\<close> dereferences the pointer found in the map; \<^verbatim>\<open>param[0]\<close> indexes the
  supplied values without a length check.
\<close>

fun parseLoop ::
  "(string \<times> string option list) list \<Rightarrow> (string \<times> Parameter option) list \<Rightarrow>
   (string \<rightharpoonup> ParamValue) \<Rightarrow> failure + (string \<rightharpoonup> ParamValue)" where
  "parseLoop [] paramsDef result = Inr result"
| "parseLoop ((name, param) # rest) paramsDef result =
     (case map_of paramsDef name of
        None \<Rightarrow> parseLoop rest paramsDef result
      | Some None \<Rightarrow> Inl NilPointerDereference
      | Some (Some paramDef) \<Rightarrow>
          (case ParamType paramDef of
             ParamTypeString \<Rightarrow>
               (case param of
                  [] \<Rightarrow> Inl IndexOutOfRange
                | v # vs \<Rightarrow> parseLoop rest paramsDef (result(name \<mapsto> StringPtr v)))
           | ParamTypeStringList \<Rightarrow>
               parseLoop rest paramsDef (result(name \<mapsto> StringPtrList param))
           | ParamTypeOther t \<Rightarrow> parseLoop rest paramsDef result))"

definition parseParameters ::
  "(string \<times> string option list) list \<Rightarrow> (string \<times> Parameter option) list \<Rightarrow>
   failure + (string \<rightharpoonup> ParamValue)" where
  "parseParameters params paramsDef = parseLoop params paramsDef Map.empty"

subsection \<open>ParseDocumentWithParams\<close>

text \<open>
  The loop "add default values for missing parameters" of \<^verbatim>\<open>ParseDocumentWithParams\<close>:
  for every declared parameter that has no entry in \<open>validParams\<close>, the default of its
  definition is stored (also when that default is nil).
\<close>

fun addDefaultValues ::
  "(string \<times> Parameter option) list \<Rightarrow> (string \<rightharpoonup> ParamValue) \<Rightarrow>
   failure + (string \<rightharpoonup> ParamValue)" where
  "addDefaultValues [] validParams = Inr validParams"
| "addDefaultValues ((k, v) # rest) validParams =
     (case validParams k of
        Some present \<Rightarrow> addDefaultValues rest validParams
      | None \<Rightarrow>
          (case v of
             None \<Rightarrow> Inl NilPointerDereference
           | Some d \<Rightarrow> addDefaultValues rest (validParams(k \<mapsto> Default (DefaultVal d)))))"

text \<open>
  The binding table that \<^verbatim>\<open>ParseDocumentWithParams\<close> hands to
  \<^verbatim>\<open>ReplacePluginParameters\<close>: \<^verbatim>\<open>parseParameters\<close>, then \<^verbatim>\<open>ValidParameters\<close>, then the
  defaults.
\<close>

definition bindingTable ::
  "ParserEnv \<Rightarrow> (string \<times> string option list) list \<Rightarrow> (string \<times> Parameter option) list \<Rightarrow>
   failure + (string \<rightharpoonup> ParamValue)" where
  "bindingTable env params paramsDef =
     (case parseParameters params paramsDef of
        Inl e \<Rightarrow> Inl e
      | Inr parsed \<Rightarrow> addDefaultValues paramsDef (ValidParameters env parsed))"

text \<open>The output location copied into the payload; a nil pointer leaves the empty string.\<close>

definition outputS3KeyPrefixOf :: "InstanceAssociationSummary \<Rightarrow> string" where
  "outputS3KeyPrefixOf a =
     (case OutputLocation a of
        None \<Rightarrow> []
      | Some loc \<Rightarrow>
          (case S3Location loc of
             None \<Rightarrow> []
           | Some s3 \<Rightarrow> (case OutputS3KeyPrefix_loc s3 of None \<Rightarrow> [] | Some k \<Rightarrow> k)))"

definition outputS3BucketNameOf :: "InstanceAssociationSummary \<Rightarrow> string" where
  "outputS3BucketNameOf a =
     (case OutputLocation a of
        None \<Rightarrow> []
      | Some loc \<Rightarrow>
          (case S3Location loc of
             None \<Rightarrow> []
           | Some s3 \<Rightarrow> (case OutputS3BucketName_loc s3 of None \<Rightarrow> [] | Some b \<Rightarrow> b)))"

definition ParseDocumentWithParams ::
  "ParserEnv \<Rightarrow> InstanceAssociation \<Rightarrow> failure + SendCommandPayload" where
  "ParseDocumentWithParams env rawData =
     (case MarshalAssociation env rawData of
        Inl e \<Rightarrow> Inl (Err e)
      | Inr rawDataContent \<Rightarrow>
     (case Document rawData of
        None \<Rightarrow> Inl NilPointerDereference
      | Some document \<Rightarrow>
     (case UnmarshalDocument env document of
        Inl e \<Rightarrow> Inl (Err e)
      | Inr content \<Rightarrow>
     (case Name_assoc (Association rawData) of
        None \<Rightarrow> Inl NilPointerDereference
      | Some name \<Rightarrow>
     (case AssociationId (Association rawData) of
        None \<Rightarrow> Inl NilPointerDereference
      | Some associationId \<Rightarrow>
     (case parseParameters (Parameters_assoc (Association rawData)) (Parameters_doc content) of
        Inl e \<Rightarrow> Inl e
      | Inr parsed \<Rightarrow>
     (let payload =
            \<lparr>DocumentContent = content,
             DocumentName_payload = name,
             CommandID = associationId,
             OutputS3KeyPrefix_payload = outputS3KeyPrefixOf (Association rawData),
             OutputS3BucketName_payload = outputS3BucketNameOf (Association rawData),
             Parameters_payload = parsed\<rparr>
      in
     (case MarshalParameters env parsed of
        Inl e \<Rightarrow> Inl (Err e)
      | Inr parametersContent \<Rightarrow>
     (case addDefaultValues (Parameters_doc content) (ValidParameters env parsed) of
        Inl e \<Rightarrow> Inl e
      | Inr validParams \<Rightarrow>
     (case ReplacePluginParameters env payload validParams of
        Inl e \<Rightarrow> Inl (Err e)
      | Inr replaced \<Rightarrow> Inr replaced))))))))))"

subsection \<open>newDocumentInfo\<close>

text \<open>
  \<^verbatim>\<open>newDocumentInfo\<close> receives the raw message by pointer and writes the generated document
  id into it; the model returns the message as the function leaves it.
\<close>

definition newDocumentInfo ::
  "ParserEnv \<Rightarrow> InstanceAssociation \<Rightarrow> SendCommandPayload \<Rightarrow>
   failure + (DocumentInfo \<times> InstanceAssociation)" where
  "newDocumentInfo env rawData payload =
     (case AssociationId (Association rawData) of
        None \<Rightarrow> Inl NilPointerDereference
      | Some associationId \<Rightarrow>
     (case InstanceId (Association rawData) of
        None \<Rightarrow> Inl NilPointerDereference
      | Some instanceId \<Rightarrow>
     (let runID = ToIsoDashUTC env (Now env);
          documentID = associationId @ ''.'' @ runID;
          rawData' = rawData\<lparr>DocumentID_raw := documentID\<rparr>
      in Inr (\<lparr>AssociationID = associationId,
               InstanceID = instanceId,
               MessageID = ''aws.ssm.'' @ associationId @ ''.'' @ instanceId,
               RunID = runID,
               DocumentID = documentID,
               CreatedDate = ToIso8601UTC env (CreateDate rawData'),
               DocumentName = DocumentName_payload payload,
               IsCommand = False,
               DocumentStatus = ResultStatusInProgress,
               RunOnce = RunOnce_raw rawData',
               DocumentTraceOutput = []\<rparr>,
              rawData'))))"

subsection \<open>buildPluginsInfo\<close>

text \<open>The configuration built for one plugin of the legacy \<^verbatim>\<open>runtimeConfig\<close> map.\<close>

definition runtimeConfiguration ::
  "SendCommandPayload \<Rightarrow> DocumentInfo \<Rightarrow> string \<Rightarrow> string \<Rightarrow> string \<Rightarrow> PluginConfig \<Rightarrow>
   Configuration" where
  "runtimeConfiguration payload documentInfo s3KeyPrefix orchestrationDir pluginName pluginConfig =
     \<lparr>Settings = Settings_plugin pluginConfig,
      Properties = Properties_plugin pluginConfig,
      OutputS3BucketName = OutputS3BucketName_payload payload,
      OutputS3KeyPrefix = BuildS3Path s3KeyPrefix pluginName,
      OrchestrationDirectory = BuildPath orchestrationDir pluginName,
      MessageId = MessageID documentInfo,
      BookKeepingFileName = DocumentID documentInfo\<rparr>"

text \<open>
  The first loop of the legacy branch fills \<^verbatim>\<open>pluginConfigurations\<close>; the second ranges
  over that map (its keys are those of \<^verbatim>\<open>runtimeConfig\<close>) and fills \<^verbatim>\<open>pluginsInfo\<close>, the
  key serving as both id and name.
\<close>

fun configurationsLoop ::
  "SendCommandPayload \<Rightarrow> DocumentInfo \<Rightarrow> string \<Rightarrow> string \<Rightarrow> (string \<times> PluginConfig) list \<Rightarrow>
   (string \<rightharpoonup> Configuration) \<Rightarrow> (string \<rightharpoonup> Configuration)" where
  "configurationsLoop payload documentInfo s3KeyPrefix orchestrationDir [] pluginConfigurations =
     pluginConfigurations"
| "configurationsLoop payload documentInfo s3KeyPrefix orchestrationDir
     ((pluginName, pluginConfig) # rest) pluginConfigurations =
     configurationsLoop payload documentInfo s3KeyPrefix orchestrationDir rest
       (pluginConfigurations(pluginName \<mapsto>
          runtimeConfiguration payload documentInfo s3KeyPrefix orchestrationDir
            pluginName pluginConfig))"

fun pluginsInfoLoop ::
  "(string \<rightharpoonup> Configuration) \<Rightarrow> string list \<Rightarrow> (string \<rightharpoonup> PluginState) \<Rightarrow>
   (string \<rightharpoonup> PluginState)" where
  "pluginsInfoLoop pluginConfigurations [] pluginsInfo = pluginsInfo"
| "pluginsInfoLoop pluginConfigurations (key # rest) pluginsInfo =
     (case pluginConfigurations key of
        None \<Rightarrow> pluginsInfoLoop pluginConfigurations rest pluginsInfo
      | Some v \<Rightarrow>
          pluginsInfoLoop pluginConfigurations rest
            (pluginsInfo(key \<mapsto>
               \<lparr>Configuration = v, HasExecuted = False, Id_plugin = key, Name_plugin = key\<rparr>)))"

text \<open>The unit built for one step of \<^verbatim>\<open>mainSteps\<close>: the action names the plugin.\<close>

definition stepPluginState ::
  "SendCommandPayload \<Rightarrow> DocumentInfo \<Rightarrow> string \<Rightarrow> string \<Rightarrow> InstancePluginConfig \<Rightarrow>
   PluginState" where
  "stepPluginState payload documentInfo s3KeyPrefix orchestrationDir instancePluginConfig =
     (let pluginName = Action instancePluginConfig;
          config =
            \<lparr>Settings = Settings_step instancePluginConfig,
             Properties = Inputs instancePluginConfig,
             OutputS3BucketName = OutputS3BucketName_payload payload,
             OutputS3KeyPrefix = BuildS3Path s3KeyPrefix pluginName,
             OrchestrationDirectory = BuildPath orchestrationDir pluginName,
             MessageId = MessageID documentInfo,
             BookKeepingFileName = DocumentID documentInfo\<rparr>
      in \<lparr>Configuration = config,
          HasExecuted = False,
          Id_plugin = Name_step instancePluginConfig,
          Name_plugin = pluginName\<rparr>)"

definition buildPluginsInfo ::
  "SendCommandPayload \<Rightarrow> DocumentInfo \<Rightarrow> string \<Rightarrow> string \<Rightarrow> DocumentState \<Rightarrow> DocumentState" where
  "buildPluginsInfo payload documentInfo s3KeyPrefix orchestrationDir docState =
     (if RuntimeConfig (DocumentContent payload) \<noteq> [] then
        (let pluginConfigurations =
               configurationsLoop payload documentInfo s3KeyPrefix orchestrationDir
                 (RuntimeConfig (DocumentContent payload)) Map.empty;
             pluginsInfo =
               pluginsInfoLoop pluginConfigurations
                 (map fst (RuntimeConfig (DocumentContent payload))) Map.empty
         in docState\<lparr>PluginsInformation := pluginsInfo\<rparr>)
      else if MainSteps (DocumentContent payload) \<noteq> [] then
        (let instancePluginsInfo =
               map (stepPluginState payload documentInfo s3KeyPrefix orchestrationDir)
                 (MainSteps (DocumentContent payload))
         in docState\<lparr>InstancePluginsInformation := instancePluginsInfo\<rparr>)
      else docState)"

subsection \<open>InitializeDocumentState\<close>

definition InitializeDocumentState ::
  "ParserEnv \<Rightarrow> SendCommandPayload \<Rightarrow> InstanceAssociation \<Rightarrow>
   failure + (DocumentState \<times> InstanceAssociation)" where
  "InitializeDocumentState env payload rawData =
     (case newDocumentInfo env rawData payload of
        Inl e \<Rightarrow> Inl e
      | Inr (documentInfo, rawData') \<Rightarrow>
          (let s3KeyPrefix =
                 path_Join [OutputS3KeyPrefix_payload payload, CommandID payload,
                            InstanceID documentInfo];
               orchestrationRootDir =
                 path_Join [DefaultDataStorePath env, InstanceID documentInfo,
                            DefaultDocumentRootDirName env, OrchestrationRootDir env];
               orchestrationDir = path_Join [orchestrationRootDir, DocumentID documentInfo];
               docState =
                 \<lparr>DocumentInformation = documentInfo,
                  DocumentType = Association_type,
                  SchemaVersion = SchemaVersion_doc (DocumentContent payload),
                  PluginsInformation = Map.empty,
                  InstancePluginsInformation = []\<rparr>
           in Inr (buildPluginsInfo payload documentInfo s3KeyPrefix orchestrationDir docState,
                   rawData')))"

text \<open>
  Compiling a raw association message: \<^verbatim>\<open>ParseDocumentWithParams\<close> followed by
  \<^verbatim>\<open>InitializeDocumentState\<close> on the same message.
\<close>

definition compile ::
  "ParserEnv \<Rightarrow> InstanceAssociation \<Rightarrow> failure + (DocumentState \<times> InstanceAssociation)" where
  "compile env rawData =
     (case ParseDocumentWithParams env rawData of
        Inl e \<Rightarrow> Inl e
      | Inr payload \<Rightarrow> InitializeDocumentState env payload rawData)"


subsection \<open>The shape of a run timestamp\<close>



subsection \<open>What the parameter substitution leaves alone\<close>

text \<open>
  \<^verbatim>\<open>ReplacePluginParameters\<close> belongs to the message-parser package. It puts parameter
  values into the settings and properties of the plugins; \<open>replacementKeepsShape\<close> says of
  an environment that its substitution does no more to the payload than that: the command
  id, the output location, the plugin names of \<^verbatim>\<open>runtimeConfig\<close> and the names and actions
  of \<^verbatim>\<open>mainSteps\<close> come back as they went in.
\<close>

definition replacementKeepsShape :: "ParserEnv \<Rightarrow> bool" where
  "replacementKeepsShape env =
     (\<forall>payload validParams replaced.
        ReplacePluginParameters env payload validParams = Inr replaced \<longrightarrow>
          CommandID replaced = CommandID payload
          \<and> OutputS3KeyPrefix_payload replaced = OutputS3KeyPrefix_payload payload
          \<and> OutputS3BucketName_payload replaced = OutputS3BucketName_payload payload
          \<and> map fst (RuntimeConfig (DocumentContent replaced))
              = map fst (RuntimeConfig (DocumentContent payload))
          \<and> map Name_step (MainSteps (DocumentContent replaced))
              = map Name_step (MainSteps (DocumentContent payload))
          \<and> map Action (MainSteps (DocumentContent replaced))
              = map Action (MainSteps (DocumentContent payload)))"

subsection \<open>Reading a compilation's outcome\<close>

text \<open>
  The units of the compiled sequence as (id, name, output key prefix), the run id of the
  compiled state and the raw message as the compilation leaves it; \<open>None\<close> when the
  compilation fails.
\<close>

definition unitSummary :: "PluginState \<Rightarrow> string \<times> string \<times> string" where
  "unitSummary u = (Id_plugin u, Name_plugin u, OutputS3KeyPrefix (Configuration u))"

definition compiledUnits ::
  "ParserEnv \<Rightarrow> InstanceAssociation \<Rightarrow> (string \<times> string \<times> string) list option" where
  "compiledUnits env rawData =
     (case compile env rawData of
        Inl e \<Rightarrow> None
      | Inr (st, rawData') \<Rightarrow> Some (map unitSummary (InstancePluginsInformation st)))"

definition compiledRunID :: "ParserEnv \<Rightarrow> InstanceAssociation \<Rightarrow> string option" where
  "compiledRunID env rawData =
     (case compile env rawData of
        Inl e \<Rightarrow> None
      | Inr (st, rawData') \<Rightarrow> Some (RunID (DocumentInformation st)))"

definition compiledMessage :: "ParserEnv \<Rightarrow> InstanceAssociation \<Rightarrow> InstanceAssociation option" where
  "compiledMessage env rawData =
     (case compile env rawData of
        Inl e \<Rightarrow> None
      | Inr (st, rawData') \<Rightarrow> Some rawData')"

text \<open>
  The document state as \<^verbatim>\<open>InitializeDocumentState\<close> builds it before it calls
  \<^verbatim>\<open>buildPluginsInfo\<close>: both plugin collections have their zero value.
\<close>

definition emptyState :: "DocumentInfo \<Rightarrow> SendCommandPayload \<Rightarrow> DocumentState" where
  "emptyState info payload =
     \<lparr>DocumentInformation = info,
      DocumentType = Association_type,
      SchemaVersion = SchemaVersion_doc (DocumentContent payload),
      PluginsInformation = Map.empty,
      InstancePluginsInformation = []\<rparr>"

subsection \<open>A concrete association\<close>

text \<open>
  Association \<open>assoc-1\<close> on instance \<open>i-1\<close>, output bucket \<open>b\<close> and key prefix \<open>p\<close>, whose
  document decodes to one main step named \<open>step1\<close> with action \<open>aws:runShellScript\<close>. The
  environment validates every parameter name, substitutes nothing and reads the clock at
  one fixed instant.
\<close>

definition demoStep :: InstancePluginConfig where
  "demoStep =
     \<lparr>Action = ''aws:runShellScript'', Name_step = ''step1'',
      Settings_step = JNull, Inputs = JNull\<rparr>"

definition demoDocument :: DocumentContent where
  "demoDocument =
     \<lparr>SchemaVersion_doc = ''2.0'', Parameters_doc = [], RuntimeConfig = [],
      MainSteps = [demoStep]\<rparr>"

definition demoAssociation :: InstanceAssociation where
  "demoAssociation =
     \<lparr>Association =
        \<lparr>Name_assoc = Some ''demo-document'',
         AssociationId = Some ''assoc-1'',
         InstanceId = Some ''i-1'',
         OutputLocation =
           Some \<lparr>S3Location =
             Some \<lparr>OutputS3KeyPrefix_loc = Some ''p'', OutputS3BucketName_loc = Some ''b''\<rparr>\<rparr>,
         Parameters_assoc = []\<rparr>,
      Document = Some ''document'',
      DocumentID_raw = [],
      CreateDate = 0,
      RunOnce_raw = False\<rparr>"

definition demoParserEnv :: ParserEnv where
  "demoParserEnv =
     \<lparr>MarshalAssociation = (\<lambda>r. Inr ''association''),
      UnmarshalDocument = (\<lambda>d. Inr demoDocument),
      MarshalParameters = (\<lambda>m. Inr ''parameters''),
      ValidParameters = (\<lambda>m. m),
      ReplacePluginParameters = (\<lambda>payload validParams. Inr payload),
      Now = 0,
      ToIsoDashUTC = (\<lambda>t. ''2016-10-31T07-40-00.000Z''),
      ToIso8601UTC = (\<lambda>t. ''2016-10-31T07:40:00.000Z''),
      DefaultDataStorePath = ''/var/lib/amazon/ssm'',
      DefaultDocumentRootDirName = ''document'',
      OrchestrationRootDir = ''orchestration''\<rparr>"

text \<open>The payload that \<^verbatim>\<open>ParseDocumentWithParams\<close> returns for this association.\<close>

definition demoPayload :: SendCommandPayload where
  "demoPayload =
     \<lparr>DocumentContent = demoDocument,
      DocumentName_payload = ''demo-document'',
      CommandID = ''assoc-1'',
      OutputS3KeyPrefix_payload = ''p'',
      OutputS3BucketName_payload = ''b'',
      Parameters_payload = Map.empty\<rparr>"

text \<open>The same payload with a document of the legacy form: one plugin in \<^verbatim>\<open>runtimeConfig\<close>.\<close>

definition legacyPayload :: SendCommandPayload where
  "legacyPayload =
     demoPayload\<lparr>DocumentContent :=
       \<lparr>SchemaVersion_doc = ''1.2'', Parameters_doc = [],
        RuntimeConfig =
          [(''aws:runShellScript'', \<lparr>Settings_plugin = JNull, Properties_plugin = JNull\<rparr>)],
        MainSteps = []\<rparr>\<rparr>"


definition demoInfo :: DocumentInfo where
  "demoInfo =
     \<lparr>AssociationID = ''assoc-1'',
      InstanceID = ''i-1'',
      MessageID = ''aws.ssm.assoc-1.i-1'',
      RunID = ''2016-10-31T07-40-00.000Z'',
      DocumentID = ''assoc-1.2016-10-31T07-40-00.000Z'',
      CreatedDate = ''2016-10-31T07:40:00.000Z'',
      DocumentName = ''demo-document'',
      IsCommand = False,
      DocumentStatus = ResultStatusInProgress,
      RunOnce = False,
      DocumentTraceOutput = []\<rparr>"


text \<open>
  The states compiled from the two payloads: one unit in the sequence for the step form,
  one unit in the map for the legacy form.
\<close>

definition demoConfiguration :: Configuration where
  "demoConfiguration =
     \<lparr>Settings = JNull,
      Properties = JNull,
      OutputS3BucketName = ''b'',
      OutputS3KeyPrefix = ''p/assoc-1/i-1/aws:runShellScript'',
      OrchestrationDirectory =
        ''/var/lib/amazon/ssm/i-1/document/orchestration/assoc-1.2016-10-31T07-40-00.000Z/aws:runShellScript'',
      MessageId = ''aws.ssm.assoc-1.i-1'',
      BookKeepingFileName = ''assoc-1.2016-10-31T07-40-00.000Z''\<rparr>"

definition demoState :: DocumentState where
  "demoState =
     \<lparr>DocumentInformation = demoInfo,
      DocumentType = Association_type,
      SchemaVersion = ''2.0'',
      PluginsInformation = Map.empty,
      InstancePluginsInformation =
        [\<lparr>Configuration = demoConfiguration, HasExecuted = False,
          Id_plugin = ''step1'', Name_plugin = ''aws:runShellScript''\<rparr>]\<rparr>"

definition legacyState :: DocumentState where
  "legacyState =
     \<lparr>DocumentInformation = demoInfo,
      DocumentType = Association_type,
      SchemaVersion = ''1.2'',
      PluginsInformation =
        [''aws:runShellScript'' \<mapsto>
           \<lparr>Configuration = demoConfiguration, HasExecuted = False,
            Id_plugin = ''aws:runShellScript'', Name_plugin = ''aws:runShellScript''\<rparr>],
      InstancePluginsInformation = []\<rparr>"

text \<open>
  Parameter definitions with a scalar parameter \<open>cmd\<close>, a list parameter \<open>dirs\<close> and a
  parameter \<open>mode\<close> of a type the parser does not know, each with a default.
\<close>

definition demoParamsDef :: "(string \<times> Parameter option) list" where
  "demoParamsDef =
     [(''cmd'', Some \<lparr>ParamType = ParamTypeString, DefaultVal = JString ''ls''\<rparr>),
      (''dirs'', Some \<lparr>ParamType = ParamTypeStringList, DefaultVal = JArray []\<rparr>),
      (''mode'', Some \<lparr>ParamType = ParamTypeOther ''Boolean'', DefaultVal = JBool False\<rparr>)]"

definition demoParams :: "(string \<times> string option list) list" where
  "demoParams = [(''dirs'', [Some ''/tmp'']), (''extra'', [Some ''x''])]"


section \<open>Properties of the inventory plugin\<close>

subsection \<open>The gatherer loop, step by step\<close>


lemma gatherLoop_Cons_unreg:
  "registeredGatherers p name = None \<Longrightarrow>
   gatherLoop p env ((name, cfg) # rest) st = st\<lparr>err := Some (UnrecognizedGatherer name)\<rparr>"
  by simp

lemma gatherLoop_Cons_failed:
  "registeredGatherers p name = Some g \<Longrightarrow> g cfg = Inl cause \<Longrightarrow>
   gatherLoop p env ((name, cfg) # rest) st =
     st\<lparr>err := Some (GathererFailed name cause), invoked := invoked st @ [name]\<rparr>"
  by simp

lemma gatherLoop_Cons_oversize:
  "registeredGatherers p name = Some g \<Longrightarrow> g cfg = Inr item \<Longrightarrow>
   \<not> VerifyInventoryDataSize env item (items st @ [item]) \<Longrightarrow>
   gatherLoop p env ((name, cfg) # rest) st =
     st\<lparr>items := items st @ [item], invoked := invoked st @ [name], err := Some SizeLimitExceeded\<rparr>"
  by (simp add: Let_def)

lemma gatherLoop_Cons_ok:
  "registeredGatherers p name = Some g \<Longrightarrow> g cfg = Inr item \<Longrightarrow>
   VerifyInventoryDataSize env item (items st @ [item]) \<Longrightarrow>
   gatherLoop p env ((name, cfg) # rest) st =
     gatherLoop p env rest (st\<lparr>items := items st @ [item], invoked := invoked st @ [name]\<rparr>)"
  by (simp add: Let_def)


declare gatherLoop.simps(2) [simp del]


lemma ranBefore_Cons:
  "registeredGatherers p name = Some g \<Longrightarrow> g cfg = Inr item \<Longrightarrow> ranBefore p es its \<Longrightarrow>
   ranBefore p ((name, cfg) # es) (item # its)"
  by simp

lemma gatherLoop_cases:
  obtains (unreg) "registeredGatherers p name = None"
  | (failed) g cause where "registeredGatherers p name = Some g" "g cfg = Inl cause"
  | (oversize) g item where "registeredGatherers p name = Some g" "g cfg = Inr item"
      "\<not> VerifyInventoryDataSize env item (items st @ [item])"
  | (ok) g item where "registeredGatherers p name = Some g" "g cfg = Inr item"
      "VerifyInventoryDataSize env item (items st @ [item])"
proof (cases "registeredGatherers p name")
  case None
  then show ?thesis by (rule unreg)
next
  case (Some g)
  show ?thesis
  proof (cases "g cfg")
    case (Inl cause)
    with Some show ?thesis by (rule failed)
  next
    case (Inr item)
    with Some show ?thesis
      by (cases "VerifyInventoryDataSize env item (items st @ [item])") (auto intro: oversize ok)
  qed
qed

lemma gatherLoop_invoked:
  "\<exists>ks. invoked (gatherLoop p env pol st) = invoked st @ ks \<and> prefix ks (map fst pol) \<and>
     (err st = None \<longrightarrow> err (gatherLoop p env pol st) = None \<longrightarrow> ks = map fst pol)"
proof (induction pol arbitrary: st)
  case Nil
  show ?case by (rule exI[of _ "[]"]) simp
next
  case (Cons a pol)
  obtain name cfg where a: "a = (name, cfg)" by (cases a)
  show ?case
  proof (cases rule: gatherLoop_cases[where p=p and name=name and cfg=cfg and env=env and st=st])
    case unreg
    show ?thesis unfolding a gatherLoop_Cons_unreg[OF unreg]
      by (rule exI[of _ "[]"]) simp
  next
    case (failed g cause)
    show ?thesis unfolding a gatherLoop_Cons_failed[OF failed]
      by (rule exI[of _ "[name]"]) simp
  next
    case (oversize g item)
    show ?thesis unfolding a gatherLoop_Cons_oversize[OF oversize]
      by (rule exI[of _ "[name]"]) simp
  next
    case (ok g item)
    let ?st' = "st\<lparr>items := items st @ [item], invoked := invoked st @ [name]\<rparr>"
    from Cons.IH[of ?st'] obtain ks where
      k1: "invoked (gatherLoop p env pol ?st') = invoked ?st' @ ks" and
      k2: "prefix ks (map fst pol)" and
      k3: "err ?st' = None \<longrightarrow> err (gatherLoop p env pol ?st') = None \<longrightarrow> ks = map fst pol"
      by (elim exE conjE)
    have k3': "err st = None \<longrightarrow> err (gatherLoop p env pol ?st') = None \<longrightarrow> ks = map fst pol"
      using k3 by simp
    show ?thesis unfolding a gatherLoop_Cons_ok[OF ok]
    proof (rule exI[of _ "name # ks"], intro conjI)
      show "invoked (gatherLoop p env pol ?st') = invoked st @ name # ks"
        using k1 by simp
      show "prefix (name # ks) (map fst ((name, cfg) # pol))"
        using k2 by simp
      show "err st = None \<longrightarrow> err (gatherLoop p env pol ?st') = None \<longrightarrow>
          name # ks = map fst ((name, cfg) # pol)"
        using k3' by simp
    qed
  qed
qed


lemma gatherLoop_error_shape:
  assumes "err st = None" and "err (gatherLoop p env pol st) = Some e"
  shows "\<exists>n new. n < length pol \<and> items (gatherLoop p env pol st) = items st @ new
           \<and> ranBefore p (take n pol) (take n new)
           \<and> (\<forall>k<n. VerifyInventoryDataSize env (new ! k) (items st @ take (Suc k) new))
           \<and> stoppedBy p env (pol ! n) (items st @ take n new) (drop n new) e"
  using assms
proof (induction pol arbitrary: st)
  case Nil
  then show ?case by simp
next
  case (Cons a pol)
  obtain name cfg where a: "a = (name, cfg)" by (cases a)
  show ?case
  proof (cases rule: gatherLoop_cases[where p=p and name=name and cfg=cfg and env=env and st=st])
    case unreg
    have e: "e = UnrecognizedGatherer name"
      using Cons.prems(2) unfolding a gatherLoop_Cons_unreg[OF unreg] by simp
    have "stoppedBy p env (name, cfg) (items st) [] e"
      using unreg by (simp add: stoppedBy_def e)
    then show ?thesis unfolding a gatherLoop_Cons_unreg[OF unreg]
      by (intro exI[of _ 0] exI[of _ "[]"]) simp
  next
    case (failed g cause)
    have e: "e = GathererFailed name cause"
      using Cons.prems(2) unfolding a gatherLoop_Cons_failed[OF failed] by simp
    have "stoppedBy p env (name, cfg) (items st) [] e"
      using failed by (simp add: stoppedBy_def e)
    then show ?thesis unfolding a gatherLoop_Cons_failed[OF failed]
      by (intro exI[of _ 0] exI[of _ "[]"]) simp
  next
    case (oversize g item)
    have e: "e = SizeLimitExceeded"
      using Cons.prems(2) unfolding a gatherLoop_Cons_oversize[OF oversize] by simp
    have "stoppedBy p env (name, cfg) (items st) [item] e"
      using oversize by (simp add: stoppedBy_def e)
    then show ?thesis unfolding a gatherLoop_Cons_oversize[OF oversize]
      by (intro exI[of _ 0] exI[of _ "[item]"]) simp
  next
    case (ok g item)
    let ?st' = "st\<lparr>items := items st @ [item], invoked := invoked st @ [name]\<rparr>"
    have e0: "err ?st' = None" using Cons.prems(1) by simp
    have e1: "err (gatherLoop p env pol ?st') = Some e"
      using Cons.prems(2) unfolding a gatherLoop_Cons_ok[OF ok] .
    from Cons.IH[OF e0 e1] obtain n new where
      n: "n < length pol" and
      it: "items (gatherLoop p env pol ?st') = items ?st' @ new" and
      rb: "ranBefore p (take n pol) (take n new)" and
      sz: "\<forall>k<n. VerifyInventoryDataSize env (new ! k) (items ?st' @ take (Suc k) new)" and
      sb: "stoppedBy p env (pol ! n) (items ?st' @ take n new) (drop n new) e"
      by (elim exE conjE)
    have it': "items (gatherLoop p env pol ?st') = items st @ item # new"
      using it by simp
    have rb': "ranBefore p (take (Suc n) ((name, cfg) # pol)) (take (Suc n) (item # new))"
      using ok(1,2) rb by simp
    have sz': "\<forall>k<Suc n. VerifyInventoryDataSize env ((item # new) ! k)
        (items st @ take (Suc k) (item # new))"
    proof (intro allI impI)
      fix k assume k: "k < Suc n"
      show "VerifyInventoryDataSize env ((item # new) ! k) (items st @ take (Suc k) (item # new))"
      proof (cases k)
        case 0
        then show ?thesis using ok(3) by simp
      next
        case (Suc j)
        with k have "j < n" by simp
        with sz have "VerifyInventoryDataSize env (new ! j) (items ?st' @ take (Suc j) new)"
          by simp
        then show ?thesis using Suc by simp
      qed
    qed
    have sb': "stoppedBy p env (((name, cfg) # pol) ! Suc n)
        (items st @ take (Suc n) (item # new)) (drop (Suc n) (item # new)) e"
      using sb by simp
    show ?thesis unfolding a gatherLoop_Cons_ok[OF ok]
      using n it' rb' sz' sb'
      by (intro exI[of _ "Suc n"] exI[of _ "item # new"] conjI) simp_all
  qed
qed

subsection \<open>The concrete plugin, evaluated\<close>


lemma float32_values:
  "float32 10 = 10"
  "float32 1024 = 1024"
  "float32 (4 / 5) = 13421773 / 16777216"
  "float32 (79999999 / 100000000) = 13421773 / 16777216"
  "float32 (float32 400 / float32 1000) = 13421773 / 33554432"
  "float32 (float32 500 / float32 1000) = 1 / 2"
  "float32 (float32 800 / float32 1000) = 13421773 / 16777216"
  "float32 (float32 900 / float32 1000) = 7549747 / 8388608"
  by code_simp+

lemma size_tight_A: "VerifyInventoryDataSize tightEnv itemA [itemA]"
  by (simp add: VerifyInventoryDataSize_def tightEnv_def roomyEnv_def itemA_def float32_values)

lemma size_tight_AB: "\<not> VerifyInventoryDataSize tightEnv itemB [itemA, itemB]"
  by (simp add: VerifyInventoryDataSize_def tightEnv_def roomyEnv_def itemA_def itemB_def
      float32_values)

lemma size_roomy_A: "VerifyInventoryDataSize roomyEnv itemA [itemA]"
  by (simp add: VerifyInventoryDataSize_def roomyEnv_def itemA_def float32_values)

lemma size_roomy_AB: "VerifyInventoryDataSize roomyEnv itemB [itemA, itemB]"
  by (simp add: VerifyInventoryDataSize_def roomyEnv_def itemA_def itemB_def float32_values)

lemma size_roomy_B: "VerifyInventoryDataSize roomyEnv itemB [itemB]"
  by (simp add: VerifyInventoryDataSize_def roomyEnv_def itemB_def float32_values)

lemma size_roomy_BA: "VerifyInventoryDataSize roomyEnv itemA [itemB, itemA]"
  by (simp add: VerifyInventoryDataSize_def roomyEnv_def itemA_def itemB_def float32_values)

lemma size_float32_rounding:
  "VerifyInventoryDataSize (roomyEnv\<lparr>TotalSizeLimitKB := 79999999 / 100000000\<rparr>)
     itemA [replicate 800 (CHR ''a'')]"
  by (simp add: VerifyInventoryDataSize_def roomyEnv_def itemA_def float32_values)

lemma demo_registered:
  "registeredGatherers demoPlugin ''A'' = Some (\<lambda>cfg. Inr itemA)"
  "registeredGatherers demoPlugin ''B'' = Some (\<lambda>cfg. Inr itemB)"
  "registeredGatherers demoPlugin ''Z'' = None"
  by (simp_all add: demoPlugin_def)

lemma run_tight:
  "VerifyAndRunGatherers demoPlugin tightEnv demoPolicy =
     \<lparr>items = [itemA, itemB], err = Some SizeLimitExceeded, invoked = [''A'', ''B'']\<rparr>"
  unfolding VerifyAndRunGatherers_def demoPolicy_def
  by (simp add: gatherLoop_Cons_ok[OF demo_registered(1)]
      gatherLoop_Cons_oversize[OF demo_registered(2)] size_tight_A size_tight_AB)

lemma run_unregistered:
  "VerifyAndRunGatherers demoPlugin roomyEnv unregisteredPolicy =
     \<lparr>items = [itemA], err = Some (UnrecognizedGatherer ''Z''), invoked = [''A'']\<rparr>"
  unfolding VerifyAndRunGatherers_def unregisteredPolicy_def
  by (simp add: gatherLoop_Cons_ok[OF demo_registered(1)]
      gatherLoop_Cons_unreg[OF demo_registered(3)] size_roomy_A)

lemma run_roomy_AB:
  "VerifyAndRunGatherers demoPlugin roomyEnv demoPolicy =
     \<lparr>items = [itemA, itemB], err = None, invoked = [''A'', ''B'']\<rparr>"
  unfolding VerifyAndRunGatherers_def demoPolicy_def
  by (simp add: gatherLoop_Cons_ok[OF demo_registered(1)]
      gatherLoop_Cons_ok[OF demo_registered(2)] size_roomy_A size_roomy_AB)

lemma run_roomy_BA:
  "VerifyAndRunGatherers demoPlugin roomyEnv (rev demoPolicy) =
     \<lparr>items = [itemB, itemA], err = None, invoked = [''B'', ''A'']\<rparr>"
  unfolding VerifyAndRunGatherers_def demoPolicy_def
  by (simp add: gatherLoop_Cons_ok[OF demo_registered(1)]
      gatherLoop_Cons_ok[OF demo_registered(2)] size_roomy_B size_roomy_BA)

lemma same_map: "map_of (rev demoPolicy) = map_of demoPolicy"
  by (rule ext) (simp add: demoPolicy_def)


subsection \<open>What VerifyAndRunGatherers returns with an error\<close>

text \<open>
  Claim C1 says that the slice returned together with an error is empty. It is not: with
  gatherers \<open>A\<close> (500 bytes) and \<open>B\<close> (400 bytes) under an aggregate limit of 0.8 KB the
  function returns the size-limit error and, with it, both items.
\<close>

theorem VerifyAndRunGatherers_error_batch_not_empty:
  "err (VerifyAndRunGatherers demoPlugin tightEnv demoPolicy) = Some SizeLimitExceeded
   \<and> items (VerifyAndRunGatherers demoPlugin tightEnv demoPolicy) = [itemA, itemB]"
  by (simp add: run_tight)

lemma ApplyInventoryPolicy_gather_error:
  assumes "ReadAllText env (path_Join [location p, InventoryPolicyDocName env]) = Inr content"
      and "UnmarshalPolicy env content = Inr policy"
      and "err (VerifyAndRunGatherers p env policy) = Some e"
  shows "ApplyInventoryPolicy p env = []"
  using assms by (simp add: ApplyInventoryPolicy_def Let_def)

text \<open>
  Claim C1, amended. When \<^verbatim>\<open>VerifyAndRunGatherers\<close> returns an error, the slice it
  returns is not emptied. The loop was left at some policy entry \<open>n\<close>; the slice holds, in
  order, the items returned by the gatherers of the \<open>n\<close> entries before it, each of which
  passed the size check when it was appended, and after them what the entry \<open>n\<close> added:
  nothing when its gatherer is unregistered or fails, the offending item when the size
  check fails. The batch is dropped by the caller: \<^verbatim>\<open>ApplyInventoryPolicy\<close> returns
  without converting or sending anything.
\<close>

theorem VerifyAndRunGatherers_error_keeps_collected:
  fixes p :: "('cfg, 'item, 'ssm) Plugin"
  assumes "err (VerifyAndRunGatherers p env policy) = Some e"
  shows "(\<exists>n. n < length policy
            \<and> ranBefore p (take n policy) (take n (items (VerifyAndRunGatherers p env policy)))
            \<and> (\<forall>k<n. VerifyInventoryDataSize env
                        (items (VerifyAndRunGatherers p env policy) ! k)
                        (take (Suc k) (items (VerifyAndRunGatherers p env policy))))
            \<and> stoppedBy p env (policy ! n)
                  (take n (items (VerifyAndRunGatherers p env policy)))
                  (drop n (items (VerifyAndRunGatherers p env policy))) e)
       \<and> (ReadAllText env (path_Join [location p, InventoryPolicyDocName env]) = Inr content
            \<and> UnmarshalPolicy env content = Inr policy \<longrightarrow>
            ApplyInventoryPolicy p env = [])"
proof (intro conjI impI)
  let ?st0 = "\<lparr>items = [], err = None, invoked = []\<rparr> :: 'item GatherResult"
  have e0: "err ?st0 = None" by simp
  have e1: "err (gatherLoop p env policy ?st0) = Some e"
    using assms by (simp add: VerifyAndRunGatherers_def)
  from gatherLoop_error_shape[OF e0 e1] obtain n new where
    n: "n < length policy" and
    it: "items (gatherLoop p env policy ?st0) = items ?st0 @ new" and
    rb: "ranBefore p (take n policy) (take n new)" and
    sz: "\<forall>k<n. VerifyInventoryDataSize env (new ! k) (items ?st0 @ take (Suc k) new)" and
    sb: "stoppedBy p env (policy ! n) (items ?st0 @ take n new) (drop n new) e"
    by (elim exE conjE)
  have i: "items (VerifyAndRunGatherers p env policy) = new"
    using it by (simp add: VerifyAndRunGatherers_def)
  have sz': "\<forall>k<n. VerifyInventoryDataSize env (new ! k) (take (Suc k) new)"
    using sz by simp
  have sb': "stoppedBy p env (policy ! n) (take n new) (drop n new) e"
    using sb by simp
  show "\<exists>n. n < length policy
            \<and> ranBefore p (take n policy) (take n (items (VerifyAndRunGatherers p env policy)))
            \<and> (\<forall>k<n. VerifyInventoryDataSize env
                        (items (VerifyAndRunGatherers p env policy) ! k)
                        (take (Suc k) (items (VerifyAndRunGatherers p env policy))))
            \<and> stoppedBy p env (policy ! n)
                  (take n (items (VerifyAndRunGatherers p env policy)))
                  (drop n (items (VerifyAndRunGatherers p env policy))) e"
    unfolding i using n rb sz' sb' by (intro exI[of _ n] conjI)
next
  assume "ReadAllText env (path_Join [location p, InventoryPolicyDocName env]) = Inr content
            \<and> UnmarshalPolicy env content = Inr policy"
  then show "ApplyInventoryPolicy p env = []"
    using assms ApplyInventoryPolicy_gather_error by (elim conjE)
qed

theorem VerifyAndRunGatherers_error_keeps_collected_witness:
  "err (VerifyAndRunGatherers demoPlugin roomyEnv unregisteredPolicy)
     = Some (UnrecognizedGatherer ''Z'')
   \<and> items (VerifyAndRunGatherers demoPlugin roomyEnv unregisteredPolicy) = [itemA]
   \<and> ReadAllText tightEnv (path_Join [location demoPlugin, InventoryPolicyDocName tightEnv])
       = Inr ''policy''
   \<and> UnmarshalPolicy tightEnv ''policy'' = Inr demoPolicy
   \<and> err (VerifyAndRunGatherers demoPlugin tightEnv demoPolicy) = Some SizeLimitExceeded
   \<and> items (VerifyAndRunGatherers demoPlugin tightEnv demoPolicy) = [itemA, itemB]
   \<and> ApplyInventoryPolicy demoPlugin tightEnv = []"
proof -
  have h: "err (VerifyAndRunGatherers demoPlugin tightEnv demoPolicy) = Some SizeLimitExceeded"
    by (simp add: run_tight)
  have r: "ReadAllText tightEnv (path_Join [location demoPlugin, InventoryPolicyDocName tightEnv])
      = Inr ''policy'' \<and> UnmarshalPolicy tightEnv ''policy'' = Inr demoPolicy"
    by (simp add: tightEnv_def roomyEnv_def)
  have s: "ApplyInventoryPolicy demoPlugin tightEnv = []"
    using VerifyAndRunGatherers_error_keeps_collected [OF h, of "''policy''"] r
    by (elim conjE) simp
  show ?thesis
    using r s by (simp add: run_tight run_unregistered)
qed

subsection \<open>The order in which the gatherers are invoked\<close>

text \<open>
  Claim C3 says that the invocation order is the policy's declared order and the same on
  every run over the same policy. The policy is a Go map: two runs over the same map may
  visit its entries in different orders, and the gatherers are then invoked in different
  orders.
\<close>

theorem VerifyAndRunGatherers_order_not_fixed:
  "map_of (rev demoPolicy) = map_of demoPolicy
   \<and> invoked (VerifyAndRunGatherers demoPlugin roomyEnv demoPolicy) = [''A'', ''B'']
   \<and> invoked (VerifyAndRunGatherers demoPlugin roomyEnv (rev demoPolicy)) = [''B'', ''A'']"
  by (simp add: same_map run_roomy_AB run_roomy_BA)

text \<open>
  Claim C3, amended. The gatherers are invoked one after the other, in the order in which
  the \<^verbatim>\<open>range\<close> over the policy map visits the gatherer names: the invoked names are a
  prefix of that enumeration, all of it when no error occurs, and no gatherer is invoked
  twice.
\<close>

theorem VerifyAndRunGatherers_invokes_in_range_order:
  fixes p :: "('cfg, 'item, 'ssm) Plugin"
  shows "prefix (invoked (VerifyAndRunGatherers p env policy)) (map fst policy)
   \<and> (err (VerifyAndRunGatherers p env policy) = None \<longrightarrow>
        invoked (VerifyAndRunGatherers p env policy) = map fst policy)
   \<and> (distinct (map fst policy) \<longrightarrow> distinct (invoked (VerifyAndRunGatherers p env policy)))"
proof -
  let ?st0 = "\<lparr>items = [], err = None, invoked = []\<rparr> :: 'item GatherResult"
  from gatherLoop_invoked[of p env policy ?st0] obtain ks where
    k1: "invoked (gatherLoop p env policy ?st0) = invoked ?st0 @ ks" and
    k2: "prefix ks (map fst policy)" and
    k3: "err ?st0 = None \<longrightarrow> err (gatherLoop p env policy ?st0) = None \<longrightarrow> ks = map fst policy"
    by (elim exE conjE)
  have i: "invoked (VerifyAndRunGatherers p env policy) = ks"
    using k1 by (simp add: VerifyAndRunGatherers_def)
  have d: "distinct (map fst policy) \<longrightarrow> distinct ks"
    using k2 by (auto simp: prefix_def)
  have e: "err (VerifyAndRunGatherers p env policy) = None \<longrightarrow> ks = map fst policy"
    using k3 by (simp add: VerifyAndRunGatherers_def)
  show ?thesis unfolding i using k2 d e by (intro conjI)
qed

theorem VerifyAndRunGatherers_invokes_in_range_order_witness:
  "err (VerifyAndRunGatherers demoPlugin roomyEnv demoPolicy) = None
   \<and> distinct (map fst demoPolicy)
   \<and> invoked (VerifyAndRunGatherers demoPlugin roomyEnv demoPolicy) = map fst demoPolicy
   \<and> distinct (invoked (VerifyAndRunGatherers demoPlugin roomyEnv demoPolicy))"
proof -
  have h: "err (VerifyAndRunGatherers demoPlugin roomyEnv demoPolicy) = None"
    by (simp add: run_roomy_AB)
  have d: "distinct (map fst demoPolicy)"
    by (simp add: demoPolicy_def)
  show ?thesis
    using h d VerifyAndRunGatherers_invokes_in_range_order [of demoPlugin roomyEnv demoPolicy] by simp
qed

subsection \<open>ApplyInventoryPolicy and a failed conversion\<close>






section \<open>Properties of the parser\<close>

subsection \<open>parseParameters\<close>

lemma parseLoop_dom:
  "parseLoop ps paramsDef m = Inr r \<Longrightarrow>
   dom r \<subseteq> dom m \<union> (fst ` set ps \<inter> fst ` set paramsDef)"
proof (induction ps arbitrary: m)
  case Nil
  then show ?case by auto
next
  case (Cons a ps)
  obtain name param where a: "a = (name, param)" by (cases a)
  show ?case
  proof (cases "map_of paramsDef name")
    case None
    with Cons.prems a have "parseLoop ps paramsDef m = Inr r" by simp
    from Cons.IH[OF this] show ?thesis by auto
  next
    case (Some d)
    then have decl: "name \<in> fst ` set paramsDef"
      by (metis map_of_eq_None_iff option.distinct(1))
    from Cons.prems a Some obtain m' where
      r: "parseLoop ps paramsDef m' = Inr r" and m': "dom m' \<subseteq> insert name (dom m)"
      by (auto split: option.splits ParamType.splits list.splits)
    from Cons.IH[OF r] m' decl a show ?thesis by auto
  qed
qed

lemma parseLoop_filter_declared:
  "parseLoop (filter (\<lambda>(name, param). name \<in> fst ` set paramsDef) ps) paramsDef m =
   parseLoop ps paramsDef m"
proof (induction ps arbitrary: m)
  case Nil
  show ?case by simp
next
  case (Cons a ps)
  obtain name param where a: "a = (name, param)" by (cases a)
  show ?case
  proof (cases "name \<in> fst ` set paramsDef")
    case True
    then have f: "filter (\<lambda>(name, param). name \<in> fst ` set paramsDef) ((name, param) # ps) =
        (name, param) # filter (\<lambda>(name, param). name \<in> fst ` set paramsDef) ps"
      by simp
    show ?thesis by (simp only: a f parseLoop.simps Cons.IH)
  next
    case False
    then have "map_of paramsDef name = None" by (simp add: map_of_eq_None_iff)
    then show ?thesis using a False Cons.IH by simp
  qed
qed

lemma parseLoop_total:
  "\<forall>(name, param) \<in> set ps. param \<noteq> [] \<Longrightarrow> \<forall>name. map_of paramsDef name \<noteq> Some None \<Longrightarrow>
   \<exists>r. parseLoop ps paramsDef m = Inr r"
proof (induction ps arbitrary: m)
  case Nil
  show ?case by simp
next
  case (Cons a ps)
  obtain name param where a: "a = (name, param)" by (cases a)
  from Cons.prems(1) a have ne: "param \<noteq> []" and rest: "\<forall>(name, param) \<in> set ps. param \<noteq> []"
    by auto
  have ih: "\<exists>r. parseLoop ps paramsDef m' = Inr r" for m'
    using Cons.IH[OF rest Cons.prems(2)] .
  show ?case
  proof (cases "map_of paramsDef name")
    case None
    then show ?thesis using a ih by simp
  next
    case (Some d)
    with Cons.prems(2) obtain pd where d: "d = Some pd" by (cases d) auto
    obtain v vs where p: "param = v # vs" using ne by (cases param) auto
    show ?thesis using a Some d p ih
      by (cases "ParamType pd") simp_all
  qed
qed



subsection \<open>The defaults\<close>

lemma addDefaultValues_keeps:
  "addDefaultValues paramsDef m = Inr r \<Longrightarrow> m k = Some x \<Longrightarrow> r k = Some x"
proof (induction paramsDef arbitrary: m)
  case Nil
  then show ?case by simp
next
  case (Cons a paramsDef)
  obtain k' v where a: "a = (k', v)" by (cases a)
  show ?case
  proof (cases "m k'")
    case (Some y)
    then show ?thesis using Cons a by simp
  next
    case None
    with Cons.prems a obtain d where v: "v = Some d"
      and r: "addDefaultValues paramsDef (m(k' \<mapsto> Default (DefaultVal d))) = Inr r"
      by (cases v) simp_all
    have "k \<noteq> k'" using None Cons.prems(2) by auto
    then have "(m(k' \<mapsto> Default (DefaultVal d))) k = Some x" using Cons.prems(2) by simp
    from Cons.IH[OF r this] show ?thesis .
  qed
qed

lemma addDefaultValues_dom:
  "addDefaultValues paramsDef m = Inr r \<Longrightarrow> dom r = dom m \<union> fst ` set paramsDef"
proof (induction paramsDef arbitrary: m)
  case Nil
  then show ?case by simp
next
  case (Cons a paramsDef)
  obtain k' v where a: "a = (k', v)" by (cases a)
  show ?case
  proof (cases "m k'")
    case (Some y)
    with Cons.prems a have "addDefaultValues paramsDef m = Inr r" by simp
    from Cons.IH[OF this] Some a show ?thesis by auto
  next
    case None
    with Cons.prems a obtain d where v: "v = Some d"
      and r: "addDefaultValues paramsDef (m(k' \<mapsto> Default (DefaultVal d))) = Inr r"
      by (cases v) simp_all
    from Cons.IH[OF r] a show ?thesis by auto
  qed
qed

lemma addDefaultValues_default:
  "addDefaultValues paramsDef m = Inr r \<Longrightarrow> m k = None \<Longrightarrow>
   map_of paramsDef k = Some (Some d) \<Longrightarrow> r k = Some (Default (DefaultVal d))"
proof (induction paramsDef arbitrary: m)
  case Nil
  then show ?case by simp
next
  case (Cons a paramsDef)
  obtain k' v where a: "a = (k', v)" by (cases a)
  show ?case
  proof (cases "k' = k")
    case True
    with Cons.prems a have v: "v = Some d" by simp
    from Cons.prems(1,2) a True v
    have r: "addDefaultValues paramsDef (m(k \<mapsto> Default (DefaultVal d))) = Inr r" by simp
    show ?thesis by (rule addDefaultValues_keeps[OF r]) simp
  next
    case False
    with Cons.prems(3) a have mo: "map_of paramsDef k = Some (Some d)" by simp
    show ?thesis
    proof (cases "m k'")
      case (Some y)
      with Cons.prems a have "addDefaultValues paramsDef m = Inr r" by simp
      from Cons.IH[OF this Cons.prems(2) mo] show ?thesis .
    next
      case None
      with Cons.prems a obtain d' where v: "v = Some d'"
        and r: "addDefaultValues paramsDef (m(k' \<mapsto> Default (DefaultVal d'))) = Inr r"
        by (cases v) simp_all
      have "(m(k' \<mapsto> Default (DefaultVal d'))) k = None" using False Cons.prems(2) by simp
      from Cons.IH[OF r this mo] show ?thesis .
    qed
  qed
qed

lemma addDefaultValues_total:
  "\<forall>(k, v) \<in> set paramsDef. v \<noteq> None \<Longrightarrow> \<exists>r. addDefaultValues paramsDef m = Inr r"
proof (induction paramsDef arbitrary: m)
  case Nil
  show ?case by simp
next
  case (Cons a paramsDef)
  obtain k' v where a: "a = (k', v)" by (cases a)
  from Cons.prems a obtain d where v: "v = Some d" by (cases v) auto
  from Cons.prems have rest: "\<forall>(k, v) \<in> set paramsDef. v \<noteq> None" by simp
  show ?case using a v Cons.IH[OF rest]
    by (cases "m k'") simp_all
qed

lemma nonNil_map_of:
  "\<forall>(k, v) \<in> set paramsDef. v \<noteq> None \<Longrightarrow> map_of paramsDef name \<noteq> Some None"
  by (auto dest: map_of_SomeD)

lemma demo_parse_params:
  "parseParameters demoParams demoParamsDef = Inr [''dirs'' \<mapsto> StringPtrList [Some ''/tmp'']]"
  by (simp add: parseParameters_def demoParams_def demoParamsDef_def)

lemma demo_bindingTable:
  "bindingTable demoParserEnv demoParams demoParamsDef =
     Inr [''dirs'' \<mapsto> StringPtrList [Some ''/tmp''],
          ''cmd'' \<mapsto> Default (JString ''ls''),
          ''mode'' \<mapsto> Default (JBool False)]"
  by (simp add: bindingTable_def demo_parse_params)
     (simp add: demoParamsDef_def demoParserEnv_def)

lemma ParseDocumentWithParams_uses_bindingTable:
  assumes "MarshalAssociation env rawData = Inr rawDataContent"
      and "Document rawData = Some document"
      and "UnmarshalDocument env document = Inr content"
      and "Name_assoc (Association rawData) = Some name"
      and "AssociationId (Association rawData) = Some associationId"
      and "parseParameters (Parameters_assoc (Association rawData)) (Parameters_doc content)
             = Inr parsed"
      and "MarshalParameters env parsed = Inr parametersContent"
  shows "ParseDocumentWithParams env rawData =
     (case bindingTable env (Parameters_assoc (Association rawData)) (Parameters_doc content) of
        Inl e \<Rightarrow> Inl e
      | Inr validParams \<Rightarrow>
          (case ReplacePluginParameters env
                  \<lparr>DocumentContent = content,
                   DocumentName_payload = name,
                   CommandID = associationId,
                   OutputS3KeyPrefix_payload = outputS3KeyPrefixOf (Association rawData),
                   OutputS3BucketName_payload = outputS3BucketNameOf (Association rawData),
                   Parameters_payload = parsed\<rparr> validParams of
             Inl e \<Rightarrow> Inl (Err e)
           | Inr replaced \<Rightarrow> Inr replaced))"
  using assms
  by (simp add: ParseDocumentWithParams_def bindingTable_def Let_def split: sum.splits)

text \<open>
  Claim C7. \<^verbatim>\<open>ValidParameters\<close> belongs to the parameters package; all that is assumed of
  it is that it returns entries of the map it is given (it introduces no key). Then, for
  every resolution that returns a binding table: the keys of the table are declared
  parameters, and a declared parameter for which no value was supplied is bound to the
  default of its definition. A supplied parameter that is not declared is dropped: with or
  without it the resolution gives the same outcome, so it adds no entry and causes no
  failure. The resolution returns a table whenever every supplied value list is non-empty
  and no definition is a nil pointer. The table is the one that \<^verbatim>\<open>ParseDocumentWithParams\<close>
  computes and hands to \<^verbatim>\<open>ReplacePluginParameters\<close>.
\<close>

theorem bindingTable_keys_and_defaults:
  assumes vp: "\<And>m. dom (ValidParameters env m) \<subseteq> dom m"
  shows "(\<forall>table. bindingTable env params paramsDef = Inr table \<longrightarrow>
            dom table \<subseteq> fst ` set paramsDef
            \<and> (\<forall>k d. map_of paramsDef k = Some (Some d) \<and> k \<notin> fst ` set params \<longrightarrow>
                  table k = Some (Default (DefaultVal d))))
       \<and> bindingTable env (filter (\<lambda>(name, param). name \<in> fst ` set paramsDef) params) paramsDef
           = bindingTable env params paramsDef
       \<and> ((\<forall>(name, param) \<in> set params. param \<noteq> []) \<and> (\<forall>(k, v) \<in> set paramsDef. v \<noteq> None) \<longrightarrow>
            (\<exists>table. bindingTable env params paramsDef = Inr table))
       \<and> (MarshalAssociation env rawData = Inr rawDataContent
            \<and> Document rawData = Some document
            \<and> UnmarshalDocument env document = Inr content
            \<and> Name_assoc (Association rawData) = Some name
            \<and> AssociationId (Association rawData) = Some associationId
            \<and> parseParameters (Parameters_assoc (Association rawData)) (Parameters_doc content)
                 = Inr parsed
            \<and> MarshalParameters env parsed = Inr parametersContent \<longrightarrow>
            ParseDocumentWithParams env rawData =
              (case bindingTable env (Parameters_assoc (Association rawData))
                      (Parameters_doc content) of
                 Inl e \<Rightarrow> Inl e
               | Inr validParams \<Rightarrow>
                   (case ReplacePluginParameters env
                           \<lparr>DocumentContent = content,
                            DocumentName_payload = name,
                            CommandID = associationId,
                            OutputS3KeyPrefix_payload = outputS3KeyPrefixOf (Association rawData),
                            OutputS3BucketName_payload = outputS3BucketNameOf (Association rawData),
                            Parameters_payload = parsed\<rparr> validParams of
                      Inl e \<Rightarrow> Inl (Err e)
                    | Inr replaced \<Rightarrow> Inr replaced)))"
proof (intro conjI allI impI)
  assume "MarshalAssociation env rawData = Inr rawDataContent
            \<and> Document rawData = Some document
            \<and> UnmarshalDocument env document = Inr content
            \<and> Name_assoc (Association rawData) = Some name
            \<and> AssociationId (Association rawData) = Some associationId
            \<and> parseParameters (Parameters_assoc (Association rawData)) (Parameters_doc content)
                 = Inr parsed
            \<and> MarshalParameters env parsed = Inr parametersContent"
  then show "ParseDocumentWithParams env rawData =
              (case bindingTable env (Parameters_assoc (Association rawData))
                      (Parameters_doc content) of
                 Inl e \<Rightarrow> Inl e
               | Inr validParams \<Rightarrow>
                   (case ReplacePluginParameters env
                           \<lparr>DocumentContent = content,
                            DocumentName_payload = name,
                            CommandID = associationId,
                            OutputS3KeyPrefix_payload = outputS3KeyPrefixOf (Association rawData),
                            OutputS3BucketName_payload = outputS3BucketNameOf (Association rawData),
                            Parameters_payload = parsed\<rparr> validParams of
                      Inl e \<Rightarrow> Inl (Err e)
                    | Inr replaced \<Rightarrow> Inr replaced))"
    by (elim conjE) (rule ParseDocumentWithParams_uses_bindingTable)
next
  fix table
  assume t: "bindingTable env params paramsDef = Inr table"
  then obtain parsed where p: "parseParameters params paramsDef = Inr parsed"
    and a: "addDefaultValues paramsDef (ValidParameters env parsed) = Inr table"
    by (auto simp: bindingTable_def split: sum.splits)
  from p have dp: "dom parsed \<subseteq> fst ` set params \<inter> fst ` set paramsDef"
    using parseLoop_dom[of params paramsDef Map.empty parsed] by (simp add: parseParameters_def)
  have dv: "dom (ValidParameters env parsed) \<subseteq> fst ` set params \<inter> fst ` set paramsDef"
    using vp[of parsed] dp by (rule subset_trans)
  show "dom table \<subseteq> fst ` set paramsDef"
    unfolding addDefaultValues_dom[OF a] using dv by simp
  fix k d
  assume kd: "map_of paramsDef k = Some (Some d) \<and> k \<notin> fst ` set params"
  then have "k \<notin> fst ` set params \<inter> fst ` set paramsDef" by simp
  then have "k \<notin> dom (ValidParameters env parsed)" using dv by (rule contra_subsetD[rotated])
  then have "ValidParameters env parsed k = None" by (simp add: domIff)
  from addDefaultValues_default[OF a this] kd
  show "table k = Some (Default (DefaultVal d))" by simp
next
  show "bindingTable env (filter (\<lambda>(name, param). name \<in> fst ` set paramsDef) params) paramsDef
           = bindingTable env params paramsDef"
    by (simp add: bindingTable_def parseParameters_def parseLoop_filter_declared)
next
  assume h: "(\<forall>(name, param) \<in> set params. param \<noteq> []) \<and> (\<forall>(k, v) \<in> set paramsDef. v \<noteq> None)"
  from h have h1: "\<forall>(name, param) \<in> set params. param \<noteq> []" by (rule conjunct1)
  from h have h2: "\<forall>(k, v) \<in> set paramsDef. v \<noteq> None" by (rule conjunct2)
  have nn: "\<forall>name. map_of paramsDef name \<noteq> Some None"
    by (intro allI nonNil_map_of[OF h2])
  from parseLoop_total[OF h1 nn, of Map.empty]
  obtain parsed where p: "parseParameters params paramsDef = Inr parsed"
    unfolding parseParameters_def by (elim exE)
  from addDefaultValues_total[OF h2, of "ValidParameters env parsed"]
  obtain table where "addDefaultValues paramsDef (ValidParameters env parsed) = Inr table"
    by (elim exE)
  with p show "\<exists>table. bindingTable env params paramsDef = Inr table"
    by (simp add: bindingTable_def)
qed

theorem bindingTable_keys_and_defaults_witness:
  "ValidParameters demoParserEnv Map.empty = Map.empty
   \<and> bindingTable demoParserEnv demoParams demoParamsDef =
       Inr [''dirs'' \<mapsto> StringPtrList [Some ''/tmp''],
            ''cmd'' \<mapsto> Default (JString ''ls''),
            ''mode'' \<mapsto> Default (JBool False)]
   \<and> ''extra'' \<in> fst ` set demoParams
   \<and> map_of demoParamsDef ''cmd'' = Some (Some \<lparr>ParamType = ParamTypeString, DefaultVal = JString ''ls''\<rparr>)
   \<and> ''cmd'' \<notin> fst ` set demoParams
   \<and> bindingTable demoParserEnv [(''dirs'', [Some ''/tmp''])] demoParamsDef
       = bindingTable demoParserEnv demoParams demoParamsDef"
proof -
  have vp: "\<And>m. dom (ValidParameters demoParserEnv m) \<subseteq> dom m"
    by (simp add: demoParserEnv_def)
  have f: "filter (\<lambda>(name, param). name \<in> fst ` set demoParamsDef) demoParams
      = [(''dirs'', [Some ''/tmp''])]"
    by (simp add: demoParams_def demoParamsDef_def)
  have c: "map_of demoParamsDef ''cmd''
      = Some (Some \<lparr>ParamType = ParamTypeString, DefaultVal = JString ''ls''\<rparr>)"
    by (simp add: demoParamsDef_def)
  have e: "''extra'' \<in> fst ` set demoParams" "''cmd'' \<notin> fst ` set demoParams"
    by (simp_all add: demoParams_def)
  have "bindingTable demoParserEnv
          (filter (\<lambda>(name, param). name \<in> fst ` set demoParamsDef) demoParams) demoParamsDef
        = bindingTable demoParserEnv demoParams demoParamsDef"
    by (rule bindingTable_keys_and_defaults
        [OF vp, of demoParams demoParamsDef, THEN conjunct2, THEN conjunct1])
  moreover have "ValidParameters demoParserEnv Map.empty = Map.empty"
    by (simp add: demoParserEnv_def)
  ultimately show ?thesis
    using c e demo_bindingTable by (simp add: f)
qed



subsection \<open>newDocumentInfo and InitializeDocumentState\<close>

lemma newDocumentInfo_Inr:
  assumes "newDocumentInfo env rawData payload = Inr (info, rawData')"
  shows "AssociationId (Association rawData) = Some (AssociationID info)"
    and "InstanceId (Association rawData) = Some (InstanceID info)"
    and "RunID info = ToIsoDashUTC env (Now env)"
    and "DocumentID info = AssociationID info @ ''.'' @ RunID info"
    and "MessageID info = ''aws.ssm.'' @ AssociationID info @ ''.'' @ InstanceID info"
    and "rawData' = rawData\<lparr>DocumentID_raw := DocumentID info\<rparr>"
  using assms
  by (auto simp: newDocumentInfo_def Let_def split: option.splits)

lemma newDocumentInfo_total:
  "(\<exists>info rawData'. newDocumentInfo env rawData payload = Inr (info, rawData')) \<longleftrightarrow>
   AssociationId (Association rawData) \<noteq> None \<and> InstanceId (Association rawData) \<noteq> None"
  by (simp add: newDocumentInfo_def Let_def split: option.splits)

lemma InitializeDocumentState_Inr:
  assumes "InitializeDocumentState env payload rawData = Inr (st, rawData')"
  shows "\<exists>info.
           newDocumentInfo env rawData payload = Inr (info, rawData')
           \<and> st = buildPluginsInfo payload info
                  (path_Join [OutputS3KeyPrefix_payload payload, CommandID payload, InstanceID info])
                  (path_Join [path_Join [DefaultDataStorePath env, InstanceID info,
                                DefaultDocumentRootDirName env, OrchestrationRootDir env],
                              DocumentID info])
                  (emptyState info payload)"
  using assms
  by (simp add: InitializeDocumentState_def Let_def emptyState_def split: sum.splits prod.splits)

lemma InitializeDocumentState_total:
  "(\<exists>st rawData'. InitializeDocumentState env payload rawData = Inr (st, rawData')) \<longleftrightarrow>
   AssociationId (Association rawData) \<noteq> None \<and> InstanceId (Association rawData) \<noteq> None"
proof -
  have "(\<exists>st rawData'. InitializeDocumentState env payload rawData = Inr (st, rawData')) \<longleftrightarrow>
        (\<exists>info rawData'. newDocumentInfo env rawData payload = Inr (info, rawData'))"
    by (simp add: InitializeDocumentState_def Let_def split: sum.splits prod.splits)
  then show ?thesis by (simp only: newDocumentInfo_total)
qed

subsection \<open>buildPluginsInfo\<close>

lemma configurationsLoop_dom:
  "dom (configurationsLoop payload info s3 orch rc m) = dom m \<union> fst ` set rc"
proof (induction rc arbitrary: m)
  case Nil
  show ?case by simp
next
  case (Cons a rc)
  obtain pluginName pluginConfig where a: "a = (pluginName, pluginConfig)" by (cases a)
  show ?case unfolding a configurationsLoop.simps Cons.IH by auto
qed

lemma pluginsInfoLoop_dom:
  "dom (pluginsInfoLoop cfgs keys m) = dom m \<union> (set keys \<inter> dom cfgs)"
proof (induction keys arbitrary: m)
  case Nil
  show ?case by simp
next
  case (Cons key keys)
  show ?case
  proof (cases "cfgs key")
    case None
    then have "key \<notin> dom cfgs" by (simp add: domIff)
    then show ?thesis using None Cons.IH[of m] by auto
  next
    case (Some v)
    then have k: "key \<in> dom cfgs" by (simp add: domIff)
    have e: "pluginsInfoLoop cfgs (key # keys) m =
        pluginsInfoLoop cfgs keys (m(key \<mapsto>
          \<lparr>Configuration = v, HasExecuted = False, Id_plugin = key, Name_plugin = key\<rparr>))"
      using Some by simp
    show ?thesis unfolding e Cons.IH using k by auto
  qed
qed

lemma pluginsInfoLoop_key:
  "\<forall>k u. m k = Some u \<longrightarrow> Id_plugin u = k \<and> Name_plugin u = k \<Longrightarrow>
   pluginsInfoLoop cfgs keys m k = Some u \<Longrightarrow> Id_plugin u = k \<and> Name_plugin u = k"
proof (induction keys arbitrary: m)
  case Nil
  then show ?case by simp
next
  case (Cons key keys)
  show ?case
  proof (cases "cfgs key")
    case None
    with Cons.prems(2) have "pluginsInfoLoop cfgs keys m k = Some u" by simp
    from Cons.IH[OF Cons.prems(1) this] show ?thesis .
  next
    case (Some v)
    let ?m' = "m(key \<mapsto>
        \<lparr>Configuration = v, HasExecuted = False, Id_plugin = key, Name_plugin = key\<rparr>)"
    have inv: "\<forall>k u. ?m' k = Some u \<longrightarrow> Id_plugin u = k \<and> Name_plugin u = k"
      using Cons.prems(1) by auto
    from Cons.prems(2) Some have "pluginsInfoLoop cfgs keys ?m' k = Some u" by simp
    from Cons.IH[OF inv this] show ?thesis .
  qed
qed

lemma buildPluginsInfo_legacy:
  assumes "RuntimeConfig (DocumentContent payload) \<noteq> []"
  shows "dom (PluginsInformation (buildPluginsInfo payload info s3 orch (emptyState info payload)))
           = fst ` set (RuntimeConfig (DocumentContent payload))"
    and "InstancePluginsInformation (buildPluginsInfo payload info s3 orch (emptyState info payload)) = []"
    and "PluginsInformation (buildPluginsInfo payload info s3 orch (emptyState info payload)) k = Some u
         \<Longrightarrow> Id_plugin u = k \<and> Name_plugin u = k"
proof -
  let ?rc = "RuntimeConfig (DocumentContent payload)"
  let ?cfgs = "configurationsLoop payload info s3 orch ?rc Map.empty"
  have b: "buildPluginsInfo payload info s3 orch (emptyState info payload) =
      (emptyState info payload)\<lparr>PluginsInformation :=
         pluginsInfoLoop ?cfgs (map fst ?rc) Map.empty\<rparr>"
    using assms by (simp add: buildPluginsInfo_def Let_def)
  have d: "dom ?cfgs = fst ` set ?rc" by (simp add: configurationsLoop_dom)
  show "dom (PluginsInformation (buildPluginsInfo payload info s3 orch (emptyState info payload)))
           = fst ` set ?rc"
    unfolding b by (simp add: pluginsInfoLoop_dom d)
  show "InstancePluginsInformation (buildPluginsInfo payload info s3 orch (emptyState info payload)) = []"
    unfolding b by (simp add: emptyState_def)
  assume "PluginsInformation (buildPluginsInfo payload info s3 orch (emptyState info payload)) k = Some u"
  then have "pluginsInfoLoop ?cfgs (map fst ?rc) Map.empty k = Some u"
    unfolding b by simp
  then show "Id_plugin u = k \<and> Name_plugin u = k"
    by (rule pluginsInfoLoop_key[rotated]) simp
qed

lemma buildPluginsInfo_steps:
  assumes "RuntimeConfig (DocumentContent payload) = []"
      and "MainSteps (DocumentContent payload) \<noteq> []"
  shows "PluginsInformation (buildPluginsInfo payload info s3 orch (emptyState info payload)) = Map.empty"
    and "InstancePluginsInformation (buildPluginsInfo payload info s3 orch (emptyState info payload))
           = map (stepPluginState payload info s3 orch) (MainSteps (DocumentContent payload))"
  using assms by (simp_all add: buildPluginsInfo_def Let_def emptyState_def)

lemma buildPluginsInfo_neither:
  assumes "RuntimeConfig (DocumentContent payload) = []"
      and "MainSteps (DocumentContent payload) = []"
  shows "buildPluginsInfo payload info s3 orch (emptyState info payload) = emptyState info payload"
  using assms by (simp add: buildPluginsInfo_def)

lemma stepPluginState_fields:
  "Id_plugin (stepPluginState payload info s3 orch step) = Name_step step"
  "Name_plugin (stepPluginState payload info s3 orch step) = Action step"
  "OutputS3KeyPrefix (Configuration (stepPluginState payload info s3 orch step))
     = BuildS3Path s3 (Action step)"
  "OutputS3BucketName (Configuration (stepPluginState payload info s3 orch step))
     = OutputS3BucketName_payload payload"
  "OrchestrationDirectory (Configuration (stepPluginState payload info s3 orch step))
     = BuildPath orch (Action step)"
  "BookKeepingFileName (Configuration (stepPluginState payload info s3 orch step))
     = DocumentID info"
  "HasExecuted (stepPluginState payload info s3 orch step) = False"
  by (simp_all add: stepPluginState_def Let_def)

subsection \<open>The concrete association, evaluated\<close>

lemma buildPluginsInfo_DocumentInformation:
  "DocumentInformation (buildPluginsInfo payload info s3 orch ds) = DocumentInformation ds"
  by (simp add: buildPluginsInfo_def Let_def)

lemma demo_parse:
  "ParseDocumentWithParams demoParserEnv demoAssociation =
     Inr \<lparr>DocumentContent = demoDocument,
          DocumentName_payload = ''demo-document'',
          CommandID = ''assoc-1'',
          OutputS3KeyPrefix_payload = ''p'',
          OutputS3BucketName_payload = ''b'',
          Parameters_payload = Map.empty\<rparr>"
  by (simp add: ParseDocumentWithParams_def demoParserEnv_def demoAssociation_def
      demoDocument_def parseParameters_def outputS3KeyPrefixOf_def outputS3BucketNameOf_def)

lemma demo_paths:
  "path_Join [''p'', ''assoc-1'', ''i-1''] = ''p/assoc-1/i-1''"
  "path_Join [''p/assoc-1/i-1'', ''aws:runShellScript''] = ''p/assoc-1/i-1/aws:runShellScript''"
  "path_Join [''p'', ''assoc-1.2016-10-31T07-40-00.000Z'', ''i-1'', ''aws:runShellScript'']
     = ''p/assoc-1.2016-10-31T07-40-00.000Z/i-1/aws:runShellScript''"
  by (simp_all add: path_Join_def path_Clean_def)

lemma demo_newDocumentInfo:
  "newDocumentInfo demoParserEnv demoAssociation payload =
     Inr (\<lparr>AssociationID = ''assoc-1'',
           InstanceID = ''i-1'',
           MessageID = ''aws.ssm.assoc-1.i-1'',
           RunID = ''2016-10-31T07-40-00.000Z'',
           DocumentID = ''assoc-1.2016-10-31T07-40-00.000Z'',
           CreatedDate = ''2016-10-31T07:40:00.000Z'',
           DocumentName = DocumentName_payload payload,
           IsCommand = False,
           DocumentStatus = ResultStatusInProgress,
           RunOnce = False,
           DocumentTraceOutput = []\<rparr>,
          demoAssociation\<lparr>DocumentID_raw := ''assoc-1.2016-10-31T07-40-00.000Z''\<rparr>)"
  by (simp add: newDocumentInfo_def Let_def demoParserEnv_def demoAssociation_def)

lemma demo_compiledUnits:
  "compiledUnits demoParserEnv demoAssociation =
     Some [(''step1'', ''aws:runShellScript'', ''p/assoc-1/i-1/aws:runShellScript'')]"
  by (simp add: compiledUnits_def compile_def demo_parse InitializeDocumentState_def
      demo_newDocumentInfo Let_def buildPluginsInfo_def demoDocument_def demoStep_def
      stepPluginState_def unitSummary_def BuildS3Path_def demo_paths)

lemma demo_compiledRunID:
  "compiledRunID demoParserEnv demoAssociation = Some ''2016-10-31T07-40-00.000Z''"
  by (simp add: compiledRunID_def compile_def demo_parse InitializeDocumentState_def
      demo_newDocumentInfo Let_def buildPluginsInfo_DocumentInformation)

lemma demo_compiledMessage:
  "compiledMessage demoParserEnv demoAssociation =
     Some (demoAssociation\<lparr>DocumentID_raw := ''assoc-1.2016-10-31T07-40-00.000Z''\<rparr>)"
  by (simp add: compiledMessage_def compile_def demo_parse InitializeDocumentState_def
      demo_newDocumentInfo Let_def)

subsection \<open>Document ids and the raw message\<close>

lemma demoPayload_parse: "ParseDocumentWithParams demoParserEnv demoAssociation = Inr demoPayload"
  by (simp add: demo_parse demoPayload_def)

lemma demo_info:
  "newDocumentInfo demoParserEnv demoAssociation demoPayload =
     Inr (demoInfo, demoAssociation\<lparr>DocumentID_raw := ''assoc-1.2016-10-31T07-40-00.000Z''\<rparr>)"
  by (simp add: demo_newDocumentInfo demoInfo_def demoPayload_def)


subsection \<open>Document ids are distinct\<close>





lemma not_injective_without_format:
  "''a'' @ ''.'' @ ''b.c'' = ''a.b'' @ ''.'' @ ''c''"
  by simp




text \<open>
  Claim C4 says that compiling leaves every field of the raw association message
  unchanged. \<^verbatim>\<open>newDocumentInfo\<close> assigns \<^verbatim>\<open>rawData.DocumentID\<close> through the pointer it is
  given: the message that had an empty document id comes back with the generated one.
\<close>

theorem compile_writes_DocumentID:
  "DocumentID_raw demoAssociation = []
   \<and> compiledMessage demoParserEnv demoAssociation =
       Some (demoAssociation\<lparr>DocumentID_raw := ''assoc-1.2016-10-31T07-40-00.000Z''\<rparr>)
   \<and> demoAssociation\<lparr>DocumentID_raw := ''assoc-1.2016-10-31T07-40-00.000Z''\<rparr> \<noteq> demoAssociation"
proof -
  have d: "DocumentID_raw demoAssociation = []" by (simp add: demoAssociation_def)
  have "DocumentID_raw (demoAssociation\<lparr>DocumentID_raw := ''assoc-1.2016-10-31T07-40-00.000Z''\<rparr>)
      \<noteq> DocumentID_raw demoAssociation"
    by (simp add: d)
  then have "demoAssociation\<lparr>DocumentID_raw := ''assoc-1.2016-10-31T07-40-00.000Z''\<rparr> \<noteq> demoAssociation"
    by (rule contrapos_nn) simp
  then show ?thesis using d demo_compiledMessage by (intro conjI)
qed

lemma ParseDocumentWithParams_AssociationId:
  "ParseDocumentWithParams env rawData = Inr payload \<Longrightarrow>
   AssociationId (Association rawData) \<noteq> None"
  by (simp add: ParseDocumentWithParams_def Let_def split: sum.splits option.splits)

lemma compile_Inr:
  assumes "compile env rawData = Inr (st, rawData')"
  shows "\<exists>payload. ParseDocumentWithParams env rawData = Inr payload
           \<and> InitializeDocumentState env payload rawData = Inr (st, rawData')"
  using assms by (simp add: compile_def split: sum.splits)

text \<open>
  Claim C4, amended. Compiling changes one field of the raw association message and no
  other: its document id becomes the generated document id, the association id followed by
  a dot and the run id. The association summary, the document body, the creation date and
  the run-once flag are as they were.
\<close>

theorem compile_changes_only_DocumentID:
  assumes "compile env rawData = Inr (st, rawData')"
  shows "rawData' = rawData\<lparr>DocumentID_raw := DocumentID (DocumentInformation st)\<rparr>
       \<and> AssociationId (Association rawData) = Some (AssociationID (DocumentInformation st))
       \<and> DocumentID (DocumentInformation st)
           = AssociationID (DocumentInformation st) @ ''.'' @ ToIsoDashUTC env (Now env)
       \<and> Association rawData' = Association rawData
       \<and> Document rawData' = Document rawData
       \<and> CreateDate rawData' = CreateDate rawData
       \<and> RunOnce_raw rawData' = RunOnce_raw rawData"
proof -
  from compile_Inr[OF assms] obtain payload where
    i: "InitializeDocumentState env payload rawData = Inr (st, rawData')"
    by (elim exE conjE)
  from InitializeDocumentState_Inr[OF i] obtain info where
    n: "newDocumentInfo env rawData payload = Inr (info, rawData')" and
    s: "st = buildPluginsInfo payload info
                  (path_Join [OutputS3KeyPrefix_payload payload, CommandID payload, InstanceID info])
                  (path_Join [path_Join [DefaultDataStorePath env, InstanceID info,
                                DefaultDocumentRootDirName env, OrchestrationRootDir env],
                              DocumentID info])
                  (emptyState info payload)"
    by (elim exE conjE)
  have di: "DocumentInformation st = info"
    unfolding s buildPluginsInfo_DocumentInformation by (simp add: emptyState_def)
  note f = newDocumentInfo_Inr[OF n]
  have r: "rawData' = rawData\<lparr>DocumentID_raw := DocumentID (DocumentInformation st)\<rparr>"
    unfolding di by (rule f(6))
  have rest: "Association rawData' = Association rawData \<and> Document rawData' = Document rawData
       \<and> CreateDate rawData' = CreateDate rawData \<and> RunOnce_raw rawData' = RunOnce_raw rawData"
    unfolding f(6) by simp
  have d: "DocumentID (DocumentInformation st)
           = AssociationID (DocumentInformation st) @ ''.'' @ ToIsoDashUTC env (Now env)"
    unfolding di using f(3,4) by simp
  have a: "AssociationId (Association rawData) = Some (AssociationID (DocumentInformation st))"
    unfolding di by (rule f(1))
  show ?thesis using r a d rest by (intro conjI) (elim conjE, assumption)+
qed

subsection \<open>The compiled states of the concrete association\<close>

lemma demo_orchestration:
  "path_Join [path_Join [''/var/lib/amazon/ssm'', ''i-1'', ''document'', ''orchestration''],
              ''assoc-1.2016-10-31T07-40-00.000Z'']
     = ''/var/lib/amazon/ssm/i-1/document/orchestration/assoc-1.2016-10-31T07-40-00.000Z''"
  "path_Join [''/var/lib/amazon/ssm/i-1/document/orchestration/assoc-1.2016-10-31T07-40-00.000Z'',
              ''aws:runShellScript'']
     = ''/var/lib/amazon/ssm/i-1/document/orchestration/assoc-1.2016-10-31T07-40-00.000Z/aws:runShellScript''"
  by (simp_all add: path_Join_def path_Clean_def)

lemma demo_initialize:
  "InitializeDocumentState demoParserEnv demoPayload demoAssociation =
     Inr (demoState, demoAssociation\<lparr>DocumentID_raw := ''assoc-1.2016-10-31T07-40-00.000Z''\<rparr>)"
  by (simp add: InitializeDocumentState_def demo_info Let_def)
     (simp add: demoInfo_def demoPayload_def demoParserEnv_def demoDocument_def demoStep_def
        buildPluginsInfo_def stepPluginState_def BuildS3Path_def BuildPath_def demo_paths
        demo_orchestration demoState_def demoConfiguration_def Let_def)

lemma legacy_info:
  "newDocumentInfo demoParserEnv demoAssociation legacyPayload =
     Inr (demoInfo, demoAssociation\<lparr>DocumentID_raw := ''assoc-1.2016-10-31T07-40-00.000Z''\<rparr>)"
  by (simp add: demo_newDocumentInfo demoInfo_def legacyPayload_def demoPayload_def)

lemma legacy_initialize:
  "InitializeDocumentState demoParserEnv legacyPayload demoAssociation =
     Inr (legacyState, demoAssociation\<lparr>DocumentID_raw := ''assoc-1.2016-10-31T07-40-00.000Z''\<rparr>)"
  by (simp add: InitializeDocumentState_def legacy_info Let_def)
     (simp add: demoInfo_def legacyPayload_def demoPayload_def demoParserEnv_def
        buildPluginsInfo_def runtimeConfiguration_def BuildS3Path_def BuildPath_def demo_paths
        demo_orchestration legacyState_def demoConfiguration_def Let_def)

lemma demo_compile:
  "compile demoParserEnv demoAssociation =
     Inr (demoState, demoAssociation\<lparr>DocumentID_raw := ''assoc-1.2016-10-31T07-40-00.000Z''\<rparr>)"
  by (simp add: compile_def demoPayload_parse demo_initialize)

subsection \<open>The compiled plugin units\<close>

theorem compile_changes_only_DocumentID_witness:
  "compile demoParserEnv demoAssociation =
     Inr (demoState, demoAssociation\<lparr>DocumentID_raw := ''assoc-1.2016-10-31T07-40-00.000Z''\<rparr>)
   \<and> demoAssociation\<lparr>DocumentID_raw := ''assoc-1.2016-10-31T07-40-00.000Z''\<rparr>
       = demoAssociation\<lparr>DocumentID_raw := DocumentID (DocumentInformation demoState)\<rparr>
   \<and> DocumentID (DocumentInformation demoState) = ''assoc-1.2016-10-31T07-40-00.000Z''"
proof -
  have "demoAssociation\<lparr>DocumentID_raw := ''assoc-1.2016-10-31T07-40-00.000Z''\<rparr>
       = demoAssociation\<lparr>DocumentID_raw := DocumentID (DocumentInformation demoState)\<rparr>"
    using compile_changes_only_DocumentID [OF demo_compile] by (elim conjE)
  moreover have "DocumentID (DocumentInformation demoState) = ''assoc-1.2016-10-31T07-40-00.000Z''"
    by (simp add: demoState_def demoInfo_def)
  ultimately show ?thesis using demo_compile by (intro conjI)
qed

text \<open>
  Claim C2 puts the run timestamp into the output key prefix. The code joins the key
  prefix with \<^verbatim>\<open>payload.CommandID\<close>, which \<^verbatim>\<open>ParseDocumentWithParams\<close> sets to the bare
  association id: the compiled unit's prefix is \<open>p/assoc-1/i-1/aws:runShellScript\<close>, not
  the path with \<open>assoc-1.<runId>\<close> in it.
\<close>

theorem compile_key_prefix_without_run_id:
  "compiledUnits demoParserEnv demoAssociation =
     Some [(''step1'', ''aws:runShellScript'', ''p/assoc-1/i-1/aws:runShellScript'')]
   \<and> compiledRunID demoParserEnv demoAssociation = Some ''2016-10-31T07-40-00.000Z''
   \<and> path_Join [''p'', ''assoc-1'' @ ''.'' @ ''2016-10-31T07-40-00.000Z'', ''i-1'',
                 ''aws:runShellScript'']
       = ''p/assoc-1.2016-10-31T07-40-00.000Z/i-1/aws:runShellScript''
   \<and> ''p/assoc-1/i-1/aws:runShellScript''
       \<noteq> ''p/assoc-1.2016-10-31T07-40-00.000Z/i-1/aws:runShellScript''"
  using demo_compiledUnits demo_compiledRunID demo_paths(3) by simp

lemma compile_single_step_payload:
  assumes "ParseDocumentWithParams env rawData = Inr payload"
      and "InstanceId (Association rawData) = Some ''i-1''"
      and "CommandID payload = ''assoc-1''"
      and "OutputS3KeyPrefix_payload payload = ''p''"
      and "RuntimeConfig (DocumentContent payload) = []"
      and "MainSteps (DocumentContent payload) = [step]"
      and "Name_step step = ''step1''"
      and "Action step = ''aws:runShellScript''"
  shows "compiledUnits env rawData =
           Some [(''step1'', ''aws:runShellScript'', ''p/assoc-1/i-1/aws:runShellScript'')]
       \<and> compiledRunID env rawData = Some (ToIsoDashUTC env (Now env))"
proof -
  from ParseDocumentWithParams_AssociationId[OF assms(1)]
  obtain a where a: "AssociationId (Association rawData) = Some a" by (elim not_None_eq[THEN iffD1, THEN exE])
  have "\<exists>st rawData'. InitializeDocumentState env payload rawData = Inr (st, rawData')"
    unfolding InitializeDocumentState_total using a assms(2) by simp
  then obtain st rawData' where
    i: "InitializeDocumentState env payload rawData = Inr (st, rawData')"
    by (elim exE)
  from InitializeDocumentState_Inr[OF i] obtain info where
    n: "newDocumentInfo env rawData payload = Inr (info, rawData')" and
    s: "st = buildPluginsInfo payload info
                  (path_Join [OutputS3KeyPrefix_payload payload, CommandID payload, InstanceID info])
                  (path_Join [path_Join [DefaultDataStorePath env, InstanceID info,
                                DefaultDocumentRootDirName env, OrchestrationRootDir env],
                              DocumentID info])
                  (emptyState info payload)"
    by (elim exE conjE)
  note f = newDocumentInfo_Inr[OF n]
  have iid: "InstanceID info = ''i-1''" using f(2) assms(2) by simp
  have ne: "MainSteps (DocumentContent payload) \<noteq> []" using assms(6) by simp
  have di: "DocumentInformation st = info"
    unfolding s buildPluginsInfo_DocumentInformation by (simp add: emptyState_def)
  have seq: "InstancePluginsInformation st =
      [stepPluginState payload info ''p/assoc-1/i-1''
         (path_Join [path_Join [DefaultDataStorePath env, ''i-1'',
                       DefaultDocumentRootDirName env, OrchestrationRootDir env],
                     DocumentID info]) step]"
    unfolding s buildPluginsInfo_steps(2)[OF assms(5) ne]
    by (simp add: assms(3,4,6) iid demo_paths)
  have u: "map unitSummary (InstancePluginsInformation st) =
      [(''step1'', ''aws:runShellScript'', ''p/assoc-1/i-1/aws:runShellScript'')]"
    unfolding seq
    by (simp add: unitSummary_def stepPluginState_fields assms(7,8) BuildS3Path_def demo_paths)
  have c: "compile env rawData = Inr (st, rawData')"
    by (simp add: compile_def assms(1) i)
  show ?thesis
    by (simp add: compiledUnits_def compiledRunID_def c u di f(3))
qed

lemma ParseDocumentWithParams_Inr:
  assumes "ParseDocumentWithParams env rawData = Inr payload"
  shows "\<exists>document content name associationId parsed validParams.
           Document rawData = Some document
           \<and> UnmarshalDocument env document = Inr content
           \<and> Name_assoc (Association rawData) = Some name
           \<and> AssociationId (Association rawData) = Some associationId
           \<and> ReplacePluginParameters env
                \<lparr>DocumentContent = content,
                 DocumentName_payload = name,
                 CommandID = associationId,
                 OutputS3KeyPrefix_payload = outputS3KeyPrefixOf (Association rawData),
                 OutputS3BucketName_payload = outputS3BucketNameOf (Association rawData),
                 Parameters_payload = parsed\<rparr> validParams = Inr payload"
proof -
  obtain c where m: "MarshalAssociation env rawData = Inr c"
    using assms by (cases "MarshalAssociation env rawData") (simp_all add: ParseDocumentWithParams_def)
  obtain document where d: "Document rawData = Some document"
    using assms m by (cases "Document rawData") (simp_all add: ParseDocumentWithParams_def)
  obtain content where u: "UnmarshalDocument env document = Inr content"
    using assms m d by (cases "UnmarshalDocument env document")
      (simp_all add: ParseDocumentWithParams_def)
  obtain name where n: "Name_assoc (Association rawData) = Some name"
    using assms m d u by (cases "Name_assoc (Association rawData)")
      (simp_all add: ParseDocumentWithParams_def)
  obtain associationId where a: "AssociationId (Association rawData) = Some associationId"
    using assms m d u n by (cases "AssociationId (Association rawData)")
      (simp_all add: ParseDocumentWithParams_def)
  obtain parsed where p:
    "parseParameters (Parameters_assoc (Association rawData)) (Parameters_doc content) = Inr parsed"
    using assms m d u n a
    by (cases "parseParameters (Parameters_assoc (Association rawData)) (Parameters_doc content)")
      (simp_all add: ParseDocumentWithParams_def)
  obtain pc where mp: "MarshalParameters env parsed = Inr pc"
    using assms m d u n a p by (cases "MarshalParameters env parsed")
      (simp_all add: ParseDocumentWithParams_def Let_def)
  obtain validParams where v:
    "addDefaultValues (Parameters_doc content) (ValidParameters env parsed) = Inr validParams"
    using assms m d u n a p mp
    by (cases "addDefaultValues (Parameters_doc content) (ValidParameters env parsed)")
      (simp_all add: ParseDocumentWithParams_def Let_def)
  let ?p0 = "\<lparr>DocumentContent = content,
                 DocumentName_payload = name,
                 CommandID = associationId,
                 OutputS3KeyPrefix_payload = outputS3KeyPrefixOf (Association rawData),
                 OutputS3BucketName_payload = outputS3BucketNameOf (Association rawData),
                 Parameters_payload = parsed\<rparr>"
  have r: "ReplacePluginParameters env ?p0 validParams = Inr payload"
    using assms m d u n a p mp v
    by (cases "ReplacePluginParameters env ?p0 validParams")
      (simp_all add: ParseDocumentWithParams_def Let_def)
  show ?thesis
    using d u n a r
    by (intro exI[of _ document] exI[of _ content] exI[of _ name] exI[of _ associationId]
        exI[of _ parsed] exI[of _ validParams] conjI)
qed

lemma singleton_from_maps:
  assumes "map f xs = [a]" and "map g xs = [b]"
  shows "\<exists>x. xs = [x] \<and> f x = a \<and> g x = b"
  using assms by (cases xs) auto

text \<open>
  Claim C2, amended. For the association \<open>assoc-1\<close> on instance \<open>i-1\<close> with output bucket
  \<open>b\<close> and key prefix \<open>p\<close>, whose document decodes to the one main step \<open>step1\<close> with
  action \<open>aws:runShellScript\<close>, and whatever the run timestamp: when parsing succeeds, the
  compiled sequence has exactly one unit, with id \<open>step1\<close>, name \<open>aws:runShellScript\<close> and
  output key prefix \<open>p/assoc-1/i-1/aws:runShellScript\<close>, the join of key prefix,
  association id, instance id and action. The run timestamp is not part of it.
\<close>

theorem compile_single_step_scenario:
  assumes parse: "ParseDocumentWithParams env rawData = Inr payload"
      and keeps: "replacementKeepsShape env"
      and aid: "AssociationId (Association rawData) = Some ''assoc-1''"
      and iid: "InstanceId (Association rawData) = Some ''i-1''"
      and loc: "OutputLocation (Association rawData) =
                 Some \<lparr>S3Location =
                   Some \<lparr>OutputS3KeyPrefix_loc = Some ''p'', OutputS3BucketName_loc = Some ''b''\<rparr>\<rparr>"
      and doc: "Document rawData = Some document"
      and dec: "UnmarshalDocument env document = Inr content"
      and rc: "RuntimeConfig content = []"
      and ms: "MainSteps content = [step]"
      and nm: "Name_step step = ''step1''"
      and ac: "Action step = ''aws:runShellScript''"
  shows "compiledUnits env rawData =
           Some [(''step1'', ''aws:runShellScript'', ''p/assoc-1/i-1/aws:runShellScript'')]
       \<and> compiledRunID env rawData = Some (ToIsoDashUTC env (Now env))"
proof -
  from ParseDocumentWithParams_Inr[OF parse]
  obtain document' content' name associationId parsed validParams where
    d': "Document rawData = Some document'" and
    u': "UnmarshalDocument env document' = Inr content'" and
    a': "AssociationId (Association rawData) = Some associationId" and
    r: "ReplacePluginParameters env
          \<lparr>DocumentContent = content',
           DocumentName_payload = name,
           CommandID = associationId,
           OutputS3KeyPrefix_payload = outputS3KeyPrefixOf (Association rawData),
           OutputS3BucketName_payload = outputS3BucketNameOf (Association rawData),
           Parameters_payload = parsed\<rparr> validParams = Inr payload"
    by (elim exE conjE)
  have c: "content' = content" using d' u' doc dec by simp
  have a: "associationId = ''assoc-1''" using a' aid by simp
  have k: "outputS3KeyPrefixOf (Association rawData) = ''p''"
    by (simp add: outputS3KeyPrefixOf_def loc)
  let ?p0 = "\<lparr>DocumentContent = content',
           DocumentName_payload = name,
           CommandID = associationId,
           OutputS3KeyPrefix_payload = outputS3KeyPrefixOf (Association rawData),
           OutputS3BucketName_payload = outputS3BucketNameOf (Association rawData),
           Parameters_payload = parsed\<rparr>"
  from keeps have
    "ReplacePluginParameters env ?p0 validParams = Inr payload \<longrightarrow>
       CommandID payload = CommandID ?p0
       \<and> OutputS3KeyPrefix_payload payload = OutputS3KeyPrefix_payload ?p0
       \<and> OutputS3BucketName_payload payload = OutputS3BucketName_payload ?p0
       \<and> map fst (RuntimeConfig (DocumentContent payload))
           = map fst (RuntimeConfig (DocumentContent ?p0))
       \<and> map Name_step (MainSteps (DocumentContent payload))
           = map Name_step (MainSteps (DocumentContent ?p0))
       \<and> map Action (MainSteps (DocumentContent payload))
           = map Action (MainSteps (DocumentContent ?p0))"
    unfolding replacementKeepsShape_def by (elim allE)
  with r have
    "CommandID payload = ''assoc-1''
     \<and> OutputS3KeyPrefix_payload payload = ''p''
     \<and> map fst (RuntimeConfig (DocumentContent payload)) = map fst (RuntimeConfig content)
     \<and> map Name_step (MainSteps (DocumentContent payload)) = map Name_step (MainSteps content)
     \<and> map Action (MainSteps (DocumentContent payload)) = map Action (MainSteps content)"
    by (simp add: c a k)
  then have h3: "CommandID payload = ''assoc-1''"
    and h4: "OutputS3KeyPrefix_payload payload = ''p''"
    and h5: "RuntimeConfig (DocumentContent payload) = []"
    and n1: "map Name_step (MainSteps (DocumentContent payload)) = [''step1'']"
    and n2: "map Action (MainSteps (DocumentContent payload)) = [''aws:runShellScript'']"
    using rc ms nm ac by simp_all
  from singleton_from_maps[OF n1 n2] obtain step' where
    h6: "MainSteps (DocumentContent payload) = [step']" and
    h7: "Name_step step' = ''step1''" and
    h8: "Action step' = ''aws:runShellScript''"
    by (elim exE conjE)
  show ?thesis
    by (rule compile_single_step_payload[OF parse iid h3 h4 h5 h6 h7 h8])
qed

lemma demo_keeps: "replacementKeepsShape demoParserEnv"
  by (simp add: replacementKeepsShape_def demoParserEnv_def)

theorem compile_single_step_scenario_witness:
  "ParseDocumentWithParams demoParserEnv demoAssociation = Inr demoPayload
   \<and> AssociationId (Association demoAssociation) = Some ''assoc-1''
   \<and> InstanceId (Association demoAssociation) = Some ''i-1''
   \<and> OutputLocation (Association demoAssociation) =
        Some \<lparr>S3Location =
          Some \<lparr>OutputS3KeyPrefix_loc = Some ''p'', OutputS3BucketName_loc = Some ''b''\<rparr>\<rparr>
   \<and> Document demoAssociation = Some ''document''
   \<and> UnmarshalDocument demoParserEnv ''document'' = Inr demoDocument
   \<and> RuntimeConfig demoDocument = []
   \<and> MainSteps demoDocument = [demoStep]
   \<and> Name_step demoStep = ''step1''
   \<and> Action demoStep = ''aws:runShellScript''
   \<and> compiledUnits demoParserEnv demoAssociation =
        Some [(''step1'', ''aws:runShellScript'', ''p/assoc-1/i-1/aws:runShellScript'')]
   \<and> compiledRunID demoParserEnv demoAssociation = Some (ToIsoDashUTC demoParserEnv (Now demoParserEnv))"
proof -
  have h1: "AssociationId (Association demoAssociation) = Some ''assoc-1''"
    by (simp add: demoAssociation_def)
  have h2: "InstanceId (Association demoAssociation) = Some ''i-1''"
    by (simp add: demoAssociation_def)
  have h3: "OutputLocation (Association demoAssociation) =
        Some \<lparr>S3Location =
          Some \<lparr>OutputS3KeyPrefix_loc = Some ''p'', OutputS3BucketName_loc = Some ''b''\<rparr>\<rparr>"
    by (simp add: demoAssociation_def)
  have h4: "Document demoAssociation = Some ''document''"
    by (simp add: demoAssociation_def)
  have h5: "UnmarshalDocument demoParserEnv ''document'' = Inr demoDocument"
    by (simp add: demoParserEnv_def)
  have h6: "RuntimeConfig demoDocument = []" by (simp add: demoDocument_def)
  have h7: "MainSteps demoDocument = [demoStep]" by (simp add: demoDocument_def)
  have h8: "Name_step demoStep = ''step1''" by (simp add: demoStep_def)
  have h9: "Action demoStep = ''aws:runShellScript''" by (simp add: demoStep_def)
  show ?thesis
    using demoPayload_parse h1 h2 h3 h4 h5 h6 h7 h8 h9
      compile_single_step_scenario [OF demoPayload_parse demo_keeps h1 h2 h3 h4 h5 h6 h7 h8 h9]
    by (intro conjI) (elim conjE, assumption)+
qed


text \<open>
  Claim C5. In every state that \<^verbatim>\<open>InitializeDocumentState\<close> returns: if the payload's
  \<^verbatim>\<open>runtimeConfig\<close> is non-empty, the map has exactly its keys and the sequence is empty;
  else if \<^verbatim>\<open>mainSteps\<close> is non-empty, the sequence is non-empty and the map is empty; else
  both are empty. Never are both populated. Whether a state is returned does not depend on
  the document: it is returned exactly when the association id and the instance id of the
  message are present, so a document with neither form still compiles.
\<close>

theorem InitializeDocumentState_at_most_one_collection:
  "(\<forall>st rawData'. InitializeDocumentState env payload rawData = Inr (st, rawData') \<longrightarrow>
      (RuntimeConfig (DocumentContent payload) \<noteq> [] \<longrightarrow>
         dom (PluginsInformation st) = fst ` set (RuntimeConfig (DocumentContent payload))
         \<and> PluginsInformation st \<noteq> Map.empty
         \<and> InstancePluginsInformation st = [])
      \<and> (RuntimeConfig (DocumentContent payload) = []
            \<and> MainSteps (DocumentContent payload) \<noteq> [] \<longrightarrow>
         PluginsInformation st = Map.empty
         \<and> InstancePluginsInformation st \<noteq> [])
      \<and> (RuntimeConfig (DocumentContent payload) = []
            \<and> MainSteps (DocumentContent payload) = [] \<longrightarrow>
         PluginsInformation st = Map.empty
         \<and> InstancePluginsInformation st = [])
      \<and> \<not> (PluginsInformation st \<noteq> Map.empty \<and> InstancePluginsInformation st \<noteq> []))
   \<and> ((\<exists>st rawData'. InitializeDocumentState env payload rawData = Inr (st, rawData')) \<longleftrightarrow>
        AssociationId (Association rawData) \<noteq> None \<and> InstanceId (Association rawData) \<noteq> None)"
proof (intro conjI allI impI)
  show "(\<exists>st rawData'. InitializeDocumentState env payload rawData = Inr (st, rawData')) \<longleftrightarrow>
        AssociationId (Association rawData) \<noteq> None \<and> InstanceId (Association rawData) \<noteq> None"
    by (rule InitializeDocumentState_total)
next
  fix st rawData'
  assume i: "InitializeDocumentState env payload rawData = Inr (st, rawData')"
  from InitializeDocumentState_Inr[OF i] obtain info s3 orch where
    s: "st = buildPluginsInfo payload info s3 orch (emptyState info payload)"
    by (elim exE conjE)
  let ?rc = "RuntimeConfig (DocumentContent payload)"
  let ?ms = "MainSteps (DocumentContent payload)"
  have legacy: "dom (PluginsInformation st) = fst ` set ?rc \<and> PluginsInformation st \<noteq> Map.empty
      \<and> InstancePluginsInformation st = []" if rc: "?rc \<noteq> []"
  proof -
    have d: "dom (PluginsInformation st) = fst ` set ?rc"
      unfolding s by (rule buildPluginsInfo_legacy(1)[OF rc])
    have "fst ` set ?rc \<noteq> {}" using rc by simp
    then have "dom (PluginsInformation st) \<noteq> {}" using d by simp
    then have n: "PluginsInformation st \<noteq> Map.empty" by (simp add: dom_eq_empty_conv)
    have e: "InstancePluginsInformation st = []"
      unfolding s by (rule buildPluginsInfo_legacy(2)[OF rc])
    show ?thesis using d n e by (intro conjI)
  qed
  have steps: "PluginsInformation st = Map.empty \<and> InstancePluginsInformation st \<noteq> []"
    if h: "?rc = [] \<and> ?ms \<noteq> []"
  proof -
    from h have rc: "?rc = []" and ms: "?ms \<noteq> []" by simp_all
    have m: "PluginsInformation st = Map.empty"
      unfolding s by (rule buildPluginsInfo_steps(1)[OF rc ms])
    have "InstancePluginsInformation st \<noteq> []"
      unfolding s buildPluginsInfo_steps(2)[OF rc ms] using ms by simp
    with m show ?thesis by (intro conjI)
  qed
  have neither: "PluginsInformation st = Map.empty \<and> InstancePluginsInformation st = []"
    if h: "?rc = [] \<and> ?ms = []"
  proof -
    from h have rc: "?rc = []" and ms: "?ms = []" by simp_all
    show ?thesis unfolding s buildPluginsInfo_neither[OF rc ms] by (simp add: emptyState_def)
  qed
  {
    assume "?rc \<noteq> []"
    from legacy[OF this]
    show "dom (PluginsInformation st) = fst ` set ?rc" "PluginsInformation st \<noteq> Map.empty"
      "InstancePluginsInformation st = []" by simp_all
  }
  {
    assume "?rc = [] \<and> ?ms \<noteq> []"
    from steps[OF this]
    show "PluginsInformation st = Map.empty" "InstancePluginsInformation st \<noteq> []" by simp_all
  }
  {
    assume "?rc = [] \<and> ?ms = []"
    from neither[OF this]
    show "PluginsInformation st = Map.empty" "InstancePluginsInformation st = []" by simp_all
  }
  show "\<not> (PluginsInformation st \<noteq> Map.empty \<and> InstancePluginsInformation st \<noteq> [])"
  proof (cases "?rc = []")
    case False
    from legacy[OF this] show ?thesis by simp
  next
    case rc: True
    show ?thesis
    proof (cases "?ms = []")
      case True
      with rc neither show ?thesis by simp
    next
      case False
      with rc steps show ?thesis by simp
    qed
  qed
qed

lemma demo_shapes:
  "RuntimeConfig (DocumentContent demoPayload) = []"
  "MainSteps (DocumentContent demoPayload) \<noteq> []"
  "RuntimeConfig (DocumentContent legacyPayload) \<noteq> []"
  "AssociationId (Association demoAssociation) \<noteq> None"
  "InstanceId (Association demoAssociation) \<noteq> None"
  by (simp_all add: demoPayload_def legacyPayload_def demoDocument_def demoAssociation_def)

theorem InitializeDocumentState_at_most_one_collection_witness:
  "InitializeDocumentState demoParserEnv demoPayload demoAssociation =
     Inr (demoState, demoAssociation\<lparr>DocumentID_raw := ''assoc-1.2016-10-31T07-40-00.000Z''\<rparr>)
   \<and> RuntimeConfig (DocumentContent demoPayload) = []
   \<and> MainSteps (DocumentContent demoPayload) \<noteq> []
   \<and> PluginsInformation demoState = Map.empty
   \<and> InstancePluginsInformation demoState \<noteq> []
   \<and> InitializeDocumentState demoParserEnv legacyPayload demoAssociation =
     Inr (legacyState, demoAssociation\<lparr>DocumentID_raw := ''assoc-1.2016-10-31T07-40-00.000Z''\<rparr>)
   \<and> RuntimeConfig (DocumentContent legacyPayload) \<noteq> []
   \<and> PluginsInformation legacyState \<noteq> Map.empty
   \<and> InstancePluginsInformation legacyState = []
   \<and> AssociationId (Association demoAssociation) \<noteq> None
   \<and> InstanceId (Association demoAssociation) \<noteq> None"
proof -
  have d: "PluginsInformation demoState = Map.empty \<and> InstancePluginsInformation demoState \<noteq> []"
    using InitializeDocumentState_at_most_one_collection [of demoParserEnv demoPayload demoAssociation, THEN conjunct1, THEN spec,
        THEN spec, THEN mp, OF demo_initialize] demo_shapes(1,2)
    by (elim conjE) simp
  have l: "PluginsInformation legacyState \<noteq> Map.empty \<and> InstancePluginsInformation legacyState = []"
    using InitializeDocumentState_at_most_one_collection [of demoParserEnv legacyPayload demoAssociation, THEN conjunct1, THEN spec,
        THEN spec, THEN mp, OF legacy_initialize] demo_shapes(3)
    by (elim conjE) simp
  show ?thesis
    using d l demo_initialize legacy_initialize demo_shapes
    by (intro conjI) (elim conjE, assumption)+
qed

text \<open>
  Claim C6. When \<^verbatim>\<open>runtimeConfig\<close> is empty and \<^verbatim>\<open>mainSteps\<close> is not, the sequence has one
  unit per step, in the order of the steps: the ids are the steps' names, the names are the
  steps' actions, and each unit's output key prefix is built from its name, the action. In
  the legacy form the map key is both the id and the name of its unit.
\<close>

theorem InitializeDocumentState_step_sequence:
  assumes "InitializeDocumentState env payload rawData = Inr (st, rawData')"
  shows "(RuntimeConfig (DocumentContent payload) = []
            \<and> MainSteps (DocumentContent payload) \<noteq> [] \<longrightarrow>
            length (InstancePluginsInformation st) = length (MainSteps (DocumentContent payload))
            \<and> map Id_plugin (InstancePluginsInformation st)
                = map Name_step (MainSteps (DocumentContent payload))
            \<and> map Name_plugin (InstancePluginsInformation st)
                = map Action (MainSteps (DocumentContent payload))
            \<and> map (\<lambda>u. OutputS3KeyPrefix (Configuration u)) (InstancePluginsInformation st)
                = map (\<lambda>s. BuildS3Path
                              (path_Join [OutputS3KeyPrefix_payload payload, CommandID payload,
                                          InstanceID (DocumentInformation st)])
                              (Action s))
                    (MainSteps (DocumentContent payload)))
       \<and> (RuntimeConfig (DocumentContent payload) \<noteq> [] \<longrightarrow>
            (\<forall>k u. PluginsInformation st k = Some u \<longrightarrow> Id_plugin u = k \<and> Name_plugin u = k))"
proof (intro conjI impI allI)
  from InitializeDocumentState_Inr[OF assms] obtain info where
    s: "st = buildPluginsInfo payload info
                  (path_Join [OutputS3KeyPrefix_payload payload, CommandID payload, InstanceID info])
                  (path_Join [path_Join [DefaultDataStorePath env, InstanceID info,
                                DefaultDocumentRootDirName env, OrchestrationRootDir env],
                              DocumentID info])
                  (emptyState info payload)"
    by (elim exE conjE)
  have di: "DocumentInformation st = info"
    unfolding s buildPluginsInfo_DocumentInformation by (simp add: emptyState_def)
  let ?ms = "MainSteps (DocumentContent payload)"
  {
    assume h: "RuntimeConfig (DocumentContent payload) = [] \<and> ?ms \<noteq> []"
    then have rc: "RuntimeConfig (DocumentContent payload) = []" and ms: "?ms \<noteq> []" by simp_all
    have seq: "InstancePluginsInformation st =
        map (stepPluginState payload info
               (path_Join [OutputS3KeyPrefix_payload payload, CommandID payload, InstanceID info])
               (path_Join [path_Join [DefaultDataStorePath env, InstanceID info,
                                DefaultDocumentRootDirName env, OrchestrationRootDir env],
                           DocumentID info])) ?ms"
      unfolding s by (rule buildPluginsInfo_steps(2)[OF rc ms])
    show "length (InstancePluginsInformation st) = length ?ms"
      unfolding seq by simp
    show "map Id_plugin (InstancePluginsInformation st) = map Name_step ?ms"
      unfolding seq by (simp add: stepPluginState_fields comp_def)
    show "map Name_plugin (InstancePluginsInformation st) = map Action ?ms"
      unfolding seq by (simp add: stepPluginState_fields comp_def)
    show "map (\<lambda>u. OutputS3KeyPrefix (Configuration u)) (InstancePluginsInformation st)
        = map (\<lambda>s. BuildS3Path
                      (path_Join [OutputS3KeyPrefix_payload payload, CommandID payload,
                                  InstanceID (DocumentInformation st)])
                      (Action s)) ?ms"
      unfolding di seq by (simp add: stepPluginState_fields comp_def)
  }
  fix k u
  assume rc: "RuntimeConfig (DocumentContent payload) \<noteq> []"
    and k: "PluginsInformation st k = Some u"
  from k show "Id_plugin u = k" "Name_plugin u = k"
    unfolding s using buildPluginsInfo_legacy(3)[OF rc] by simp_all
qed

theorem InitializeDocumentState_step_sequence_witness:
  "InitializeDocumentState demoParserEnv demoPayload demoAssociation =
     Inr (demoState, demoAssociation\<lparr>DocumentID_raw := ''assoc-1.2016-10-31T07-40-00.000Z''\<rparr>)
   \<and> RuntimeConfig (DocumentContent demoPayload) = []
   \<and> MainSteps (DocumentContent demoPayload) \<noteq> []
   \<and> map Id_plugin (InstancePluginsInformation demoState) = [''step1'']
   \<and> map Name_plugin (InstancePluginsInformation demoState) = [''aws:runShellScript'']
   \<and> InitializeDocumentState demoParserEnv legacyPayload demoAssociation =
     Inr (legacyState, demoAssociation\<lparr>DocumentID_raw := ''assoc-1.2016-10-31T07-40-00.000Z''\<rparr>)
   \<and> RuntimeConfig (DocumentContent legacyPayload) \<noteq> []
   \<and> map_option Id_plugin (PluginsInformation legacyState ''aws:runShellScript'')
        = Some ''aws:runShellScript''
   \<and> map_option Name_plugin (PluginsInformation legacyState ''aws:runShellScript'')
        = Some ''aws:runShellScript''"
proof -
  have m: "map Name_step (MainSteps (DocumentContent demoPayload)) = [''step1'']"
    "map Action (MainSteps (DocumentContent demoPayload)) = [''aws:runShellScript'']"
    by (simp_all add: demoPayload_def demoDocument_def demoStep_def)
  have d: "map Id_plugin (InstancePluginsInformation demoState) = [''step1'']
      \<and> map Name_plugin (InstancePluginsInformation demoState) = [''aws:runShellScript'']"
    using InitializeDocumentState_step_sequence [OF demo_initialize, THEN conjunct1] demo_shapes(1,2) m
    by (elim conjE impE) simp_all
  obtain u where u: "PluginsInformation legacyState ''aws:runShellScript'' = Some u"
    by (simp add: legacyState_def)
  have "Id_plugin u = ''aws:runShellScript'' \<and> Name_plugin u = ''aws:runShellScript''"
    using InitializeDocumentState_step_sequence [OF legacy_initialize, THEN conjunct2, THEN mp, OF demo_shapes(3)] u
    by (elim allE impE) simp_all
  then have l: "map_option Id_plugin (PluginsInformation legacyState ''aws:runShellScript'')
        = Some ''aws:runShellScript''
      \<and> map_option Name_plugin (PluginsInformation legacyState ''aws:runShellScript'')
        = Some ''aws:runShellScript''"
    by (simp add: u)
  show ?thesis
    using d l demo_initialize legacy_initialize demo_shapes(1,2,3)
    by (intro conjI) (elim conjE, assumption)+
qed


end
